theory Spec2Isabelle
  imports Complex_Main
begin

section \<open>DataScrubber: the interactive wrapper around the wiping engine\<close>

text \<open>
  The repository holds two revisions of the Node.js wrapper that drives the Python wiping
  engine \<^verbatim>\<open>main.py\<close>: \<^verbatim>\<open>index.js\<close>, the current one, and an older one
  (\<^verbatim>\<open>unnamed/part_000\<close>). Definitions taken from \<^verbatim>\<open>index.js\<close> keep the source's names;
  those taken from the older revision carry the suffix \<open>_v1\<close>.

  Conventions of the embedding:
  \<^item> a JavaScript string is a \<open>string\<close>, the bytes of its text in UTF-8: a character of
    ASCII is one \<open>char\<close> and is part of no other character, so concatenation, equality,
    the empty string and a split or a test on an ASCII character are those of the list;
  \<^item> a value read from parsed JSON is a \<open>json option\<close>, \<open>None\<close> being \<^verbatim>\<open>undefined\<close>;
    \<open>JNum\<close> holds the value of the parsed number, and an object its members, each key once;
  \<^item> an operation that can throw returns \<open>error + 'a\<close>, \<open>Inl\<close> being the exception;
  \<^item> what the operating system, the engine and the operator supply (command output, the
    process's uid, the answers typed at the prompts) enters as arguments;
  \<^item> built-ins of JavaScript and Node.js whose algorithm is not part of this repository
    (\<^verbatim>\<open>JSON.parse\<close>, \<^verbatim>\<open>path.normalize\<close>, \<^verbatim>\<open>path.resolve\<close>, those that know
    Unicode: \<^verbatim>\<open>trim\<close>, \<^verbatim>\<open>toLowerCase\<close>, a split on the class \<^verbatim>\<open>\s\<close>, and those that
    compute in floating point: \<^verbatim>\<open>parseInt\<close>, \<^verbatim>\<open>toFixed\<close>, the conversion of a number
    or an object to text) are arguments too, so every theorem holds whatever they compute;
  \<^item> colours (\<^verbatim>\<open>chalk\<close>) are left out of the texts shown: \<^verbatim>\<open>chalk\<close> at colour level 0
    returns its argument; what only draws the screen (\<^verbatim>\<open>displayHeader\<close>,
    \<^verbatim>\<open>renderUI\<close>, the spinner) and the delays before the menu comes back are left out.
\<close>

subsection \<open>JavaScript values and strings\<close>

datatype json = JNull | JBool bool | JNum rat | JStr string
  | JArr "json list" | JObj "(string \<times> json) list"

datatype error = TypeError | SyntaxError | Error string

text \<open>Truthiness, as \<^verbatim>\<open>!!v\<close>, \<^verbatim>\<open>v ? a : b\<close> and \<^verbatim>\<open>v || d\<close> read it.\<close>

fun truthy :: "json option \<Rightarrow> bool" where
  "truthy None = False"
| "truthy (Some JNull) = False"
| "truthy (Some (JBool b)) = b"
| "truthy (Some (JNum n)) = (n \<noteq> 0)"
| "truthy (Some (JStr s)) = (s \<noteq> [])"
| "truthy (Some (JArr _)) = True"
| "truthy (Some (JObj _)) = True"

text \<open>
  A property read \<^verbatim>\<open>j.k\<close> on a parsed value: a \<^verbatim>\<open>TypeError\<close> on \<^verbatim>\<open>null\<close>, the member
  of an object, and \<^verbatim>\<open>undefined\<close> on everything else (none of the keys the wrapper reads,
  \<^verbatim>\<open>type phase message items is_system path device\<close>, is a member of a prototype).
\<close>

fun getProp :: "json \<Rightarrow> string \<Rightarrow> error + json option" where
  "getProp JNull k = Inl TypeError"
| "getProp (JObj kvs) k = Inr (map_of kvs k)"
| "getProp _ k = Inr None"

text \<open>\<^verbatim>\<open>s.split(c)\<close> for a one-character separator: the pieces between the separators.\<close>

fun splitOn :: "char \<Rightarrow> string \<Rightarrow> string list" where
  "splitOn c [] = [[]]"
| "splitOn c (x # xs) =
     (if x = c then [] # splitOn c xs
      else (case splitOn c xs of
              [] \<Rightarrow> [[x]]
            | w # ws \<Rightarrow> (x # w) # ws))"

abbreviation newline :: char where
  "newline \<equiv> CHR 0x0A"

definition nthOpt :: "'a list \<Rightarrow> nat \<Rightarrow> 'a option" where
  "nthOpt xs i = (if i < length xs then Some (xs ! i) else None)"

text \<open>\<^verbatim>\<open>String(n)\<close> for an integer.\<close>

function showNat :: "nat \<Rightarrow> string" where
  "showNat n =
     (if n < 10 then [''0123456789'' ! n]
      else showNat (n div 10) @ [''0123456789'' ! (n mod 10)])"
  by pat_completeness auto
termination
  by (relation "measure id") auto

declare showNat.simps [simp del]

definition showInt :: "int \<Rightarrow> string" where
  "showInt i = (if i < 0 then ''-'' @ showNat (nat (- i)) else showNat (nat i))"

subsection \<open>The environment\<close>

datatype exec_result = ExecError | Stdout string

text \<open>
  What the wrapper reads from outside itself. \<open>exec\<close> is the outcome of
  \<^verbatim>\<open>child_process.exec\<close> on a command line (\<open>ExecError\<close>: the callback's \<^verbatim>\<open>err\<close> is
  set); \<open>getuid\<close> is \<^verbatim>\<open>process.getuid()\<close>, \<open>None\<close> where \<^verbatim>\<open>process.getuid\<close> is not a
  function; \<open>mainPy\<close> is \<^verbatim>\<open>path.join(__dirname, 'main.py')\<close>.

  The built-ins of JavaScript and Node.js the wrapper calls: \<open>parse\<close> is \<^verbatim>\<open>JSON.parse\<close>,
  \<open>None\<close> when it throws; \<open>pathNormalize\<close> and \<open>pathResolve\<close> are \<^verbatim>\<open>path.normalize\<close>
  and \<^verbatim>\<open>path.resolve\<close> on strings; \<open>trim\<close> and \<open>toLowerCase\<close> are the methods of a
  string, which know all of Unicode; \<open>splitWs e 1 s\<close> is \<^verbatim>\<open>s.split(/\s+/)\<close> and
  \<open>splitWs e 2 s\<close> is \<^verbatim>\<open>s.split(/\s{2,}/)\<close>; \<open>sizeGB e s\<close> is \<open>None\<close> when
  \<^verbatim>\<open>parseInt(s, 10)\<close> is \<^verbatim>\<open>NaN\<close> and otherwise the text that
  \<^verbatim>\<open>(size / 1073741824).toFixed(1)\<close> gives for that number, computed in floating point
  (the older revision's \<^verbatim>\<open>size / 1024 / 1024 / 1024\<close> is the same number);
  \<open>toText\<close> converts a number, an array or an object to text and may throw.

  Two texts of the wrapper's own that are computed in floating point from members of any
  JSON type, and may throw: \<open>driveName\<close>, which \<^verbatim>\<open>index.js\<close> lines 47 to 54 and 58 build
  for a drive of the engine's inventory, and \<open>progressBar\<close>, the line that the older
  revision (lines 108 to 113) prints for a progress record.
\<close>

record env =
  isWindows :: bool
  getuid :: "nat option"
  mainPy :: string
  exec :: "string \<Rightarrow> exec_result"
  parse :: "string \<Rightarrow> json option"
  pathNormalize :: "string \<Rightarrow> string"
  pathResolve :: "string \<Rightarrow> string"
  trim :: "string \<Rightarrow> string"
  toLowerCase :: "string \<Rightarrow> string"
  splitWs :: "nat \<Rightarrow> string \<Rightarrow> string list"
  sizeGB :: "string \<Rightarrow> string option"
  toText :: "json \<Rightarrow> error + string"
  driveName :: "json \<Rightarrow> error + string"
  progressBar :: "json \<Rightarrow> error + string"

definition pythonExecutable :: "env \<Rightarrow> string" where
  "pythonExecutable e = (if isWindows e then ''python'' else ''python3'')"

subsection \<open>Menu entries and prompts\<close>

text \<open>
  An entry of an \<^verbatim>\<open>inquirer\<close> list is a choice (its text, the value the prompt returns
  for it, and \<open>disabled\<close> when set) or a separator. A list prompt returns the value of an
  entry the operator can move to: a choice that is not disabled. \<open>promptList\<close> is \<open>None\<close>
  for an answer the list does not offer.
\<close>

record 'v choice =
  name :: string
  val :: 'v
  disabled :: "string option"

datatype 'v entry = Choice "'v choice" | Separator

fun selectable :: "'v entry list \<Rightarrow> 'v list" where
  "selectable [] = []"
| "selectable (Separator # es) = selectable es"
| "selectable (Choice c # es) =
     (if disabled c = None then val c # selectable es else selectable es)"

definition promptList :: "'v entry list \<Rightarrow> 'v \<Rightarrow> 'v option" where
  "promptList es a = (if a \<in> set (selectable es) then Some a else None)"

definition plain :: "string \<Rightarrow> 'v \<Rightarrow> 'v entry" where
  "plain n v = Choice \<lparr>name = n, val = v, disabled = None\<rparr>"

subsection \<open>Drive enumeration (\<^verbatim>\<open>getDrives\<close>)\<close>

type_synonym drive = "json option choice"

text \<open>
  The command line of the primary enumeration: the engine in listing mode, with place
  holders for the arguments its parser insists on.
\<close>

definition cmd :: "env \<Rightarrow> string" where
  "cmd e =
     [CHR 0x22] @ pythonExecutable e @ [CHR 0x22] @ '' '' @ [CHR 0x22] @ mainPy e @ [CHR 0x22] @
     '' -p '' @ (if isWindows e then ''C:'' @ [CHR 0x5C] else ''/dev/null'') @
     '' -m secure -f '' @ (if isWindows e then ''NTFS'' else ''ext4'') @
     '' --list-drives --dry-run''"

definition fallbackCmd :: "env \<Rightarrow> string" where
  "fallbackCmd e =
     (if isWindows e then ''wmic logicaldisk get caption,volumename,size''
      else ''lsblk -o NAME,FSTYPE,SIZE,MOUNTPOINT -b -p -n'')"

text \<open>
  The test of \<^verbatim>\<open>find\<close>: the line parses, the value is truthy and its \<^verbatim>\<open>type\<close> is
  \<^verbatim>\<open>'drives'\<close>; a line that does not parse is passed over.
\<close>

definition isDrivesLine :: "env \<Rightarrow> string \<Rightarrow> bool" where
  "isDrivesLine e l =
     (case parse e l of
        None \<Rightarrow> False
      | Some j \<Rightarrow> truthy (Some j) \<and> getProp j ''type'' = Inr (Some (JStr ''drives'')))"

text \<open>The callback of \<^verbatim>\<open>items.map\<close>: one menu choice for one record of the inventory.\<close>

definition driveChoice :: "env \<Rightarrow> json \<Rightarrow> error + drive" where
  "driveChoice e d =
     (case getProp d ''is_system'' of
        Inl err \<Rightarrow> Inl err
      | Inr sys \<Rightarrow>
          (case driveName e d of
             Inl err \<Rightarrow> Inl err
           | Inr n \<Rightarrow>
               (case getProp d (if isWindows e then ''path'' else ''device'') of
                  Inl err \<Rightarrow> Inl err
                | Inr v \<Rightarrow>
                    Inr \<lparr>name = n, val = v,
                         disabled = (if truthy sys then Some ''System volume (blocked)''
                                     else None)\<rparr>)))"

fun mapE :: "('a \<Rightarrow> error + 'b) \<Rightarrow> 'a list \<Rightarrow> error + 'b list" where
  "mapE f [] = Inr []"
| "mapE f (x # xs) =
     (case f x of
        Inl err \<Rightarrow> Inl err
      | Inr y \<Rightarrow> (case mapE f xs of Inl err \<Rightarrow> Inl err | Inr ys \<Rightarrow> Inr (y # ys)))"

text \<open>
  The body of the \<^verbatim>\<open>try\<close> block, given what \<^verbatim>\<open>exec\<close> handed to the callback: \<open>Inr\<close>
  is the list passed to \<^verbatim>\<open>resolve\<close>, \<open>Inl\<close> an exception on its way to \<^verbatim>\<open>catch\<close>.
\<close>

definition primary :: "env \<Rightarrow> exec_result \<Rightarrow> error + drive list" where
  "primary e r =
     (case r of
        ExecError \<Rightarrow> Inl (Error ''exec'')
      | Stdout out \<Rightarrow>
          (case find (isDrivesLine e) (rev (splitOn newline (trim e out))) of
             None \<Rightarrow> Inl (Error ''No drives JSON'')
           | Some lastJsonLine \<Rightarrow>
               (case parse e lastJsonLine of
                  None \<Rightarrow> Inl SyntaxError
                | Some payload \<Rightarrow>
                    (case getProp payload ''items'' of
                       Inl err \<Rightarrow> Inl err
                     | Inr its \<Rightarrow>
                         (case (if truthy its then the its else JArr []) of
                            JArr ds \<Rightarrow>
                              (case mapE (driveChoice e) ds of
                                 Inl err \<Rightarrow> Inl err
                               | Inr choices \<Rightarrow>
                                   if 0 < length choices then Inr choices
                                   else Inl (Error ''Empty drive list''))
                          | _ \<Rightarrow> Inl TypeError)))))"

text \<open>
  The fallback: one line of \<^verbatim>\<open>wmic\<close>, one line of \<^verbatim>\<open>lsblk\<close>. A size is used twice,
  for \<^verbatim>\<open>isNaN(size)\<close> and for the text \<^verbatim>\<open>sizeGB\<close>, both inside \<open>sizeGB\<close>; of
  \<^verbatim>\<open>undefined\<close>, \<^verbatim>\<open>parseInt\<close> makes \<^verbatim>\<open>NaN\<close>.
\<close>

definition sizeOf :: "env \<Rightarrow> string option \<Rightarrow> string option" where
  "sizeOf e v = (case v of None \<Rightarrow> None | Some s \<Rightarrow> sizeGB e s)"

definition wmicDrive :: "env \<Rightarrow> string \<Rightarrow> drive list" where
  "wmicDrive e line =
     (let parts = splitWs e 2 (trim e line) in
      if length parts < 2 then []
      else
        (let caption = parts ! 0;
             volumeName = (if 2 < length parts then parts ! 2 else ''[No Name]'')
         in case sizeOf e (Some (parts ! 1)) of
              None \<Rightarrow> []
            | Some gb \<Rightarrow>
                if caption \<noteq> []
                then [\<lparr>name = caption @ '' '' @ volumeName @ '' ('' @ gb @ ''GB)'',
                       val = Some (JStr (caption @ [CHR 0x5C])), disabled = None\<rparr>]
                else []))"

definition lsblkDrive :: "env \<Rightarrow> string \<Rightarrow> drive list" where
  "lsblkDrive e line =
     (let parts = splitWs e 1 (trim e line);
          mountPoint = (case nthOpt parts 3 of
                          None \<Rightarrow> ''[Not Mounted]''
                        | Some m \<Rightarrow> if m = [] then ''[Not Mounted]'' else m)
      in case (nthOpt parts 0, sizeOf e (nthOpt parts 2)) of
           (Some devName, Some gb) \<Rightarrow>
             if devName \<noteq> []
             then [\<lparr>name = devName @ '' @ '' @ mountPoint @ '' ('' @ gb @ ''GB)'',
                    val = Some (JStr devName), disabled = None\<rparr>]
             else []
         | _ \<Rightarrow> [])"

definition fallbackDrives :: "env \<Rightarrow> string \<Rightarrow> drive list" where
  "fallbackDrives e stdout2 =
     (let lines = filter (\<lambda>l. l \<noteq> []) (splitOn newline (trim e stdout2)) in
      if isWindows e then concat (map (wmicDrive e) (drop 1 lines))
      else concat (map (lsblkDrive e) lines))"

text \<open>
  \<^verbatim>\<open>getDrives\<close>: the command lines handed to \<^verbatim>\<open>exec\<close>, in order, and the outcome of the
  promise (\<open>Inr\<close>: the list it resolves with).
\<close>

definition getDrives :: "env \<Rightarrow> string list \<times> (error + drive list)" where
  "getDrives e =
     (case primary e (exec e (cmd e)) of
        Inr choices \<Rightarrow> ([cmd e], Inr choices)
      | Inl _ \<Rightarrow>
          (case exec e (fallbackCmd e) of
             ExecError \<Rightarrow> ([cmd e, fallbackCmd e], Inr [])
           | Stdout stdout2 \<Rightarrow> ([cmd e, fallbackCmd e], Inr (fallbackDrives e stdout2))))"

text \<open>The older revision asks the platform tools only.\<close>

definition command_v1 :: "env \<Rightarrow> string" where
  "command_v1 e =
     (if isWindows e then ''wmic logicaldisk get caption,volumename,size,freespace''
      else ''df -h'')"

definition joinSp :: "string list \<Rightarrow> string" where
  "joinSp ps = (case ps of [] \<Rightarrow> [] | p # qs \<Rightarrow> foldl (\<lambda>a q. a @ '' '' @ q) p qs)"

definition textOf :: "string option \<Rightarrow> string" where
  "textOf v = (case v of None \<Rightarrow> ''undefined'' | Some s \<Rightarrow> s)"

definition wmicDrive_v1 :: "env \<Rightarrow> string \<Rightarrow> string choice list" where
  "wmicDrive_v1 e line =
     (let parts = splitWs e 1 (trim e line) in
      if length parts < 2 then []
      else
        (let caption = parts ! 0;
             freeGB = (case sizeOf e (Some (parts ! 1)) of None \<Rightarrow> ''NaN'' | Some gb \<Rightarrow> gb);
             volumeName = (if joinSp (drop 3 parts) = [] then ''[No Name]''
                           else joinSp (drop 3 parts))
         in case sizeOf e (nthOpt parts 2) of
              None \<Rightarrow> []
            | Some gb \<Rightarrow>
                if caption \<noteq> []
                then [\<lparr>name = caption @ '' '' @ volumeName @ '' ('' @ freeGB @
                              ''GB free / '' @ gb @ ''GB total)'',
                       val = caption @ [CHR 0x5C], disabled = None\<rparr>]
                else []))"

definition dfDrive_v1 :: "env \<Rightarrow> string \<Rightarrow> string choice list" where
  "dfDrive_v1 e line =
     (let parts = splitWs e 1 (trim e line) in
      if parts = [] then []
      else
        (let mountPoint = last parts
         in if mountPoint \<noteq> [] \<and> hd mountPoint = CHR ''/''
            then [\<lparr>name = mountPoint @ '' ('' @ textOf (nthOpt parts 3) @ '' free / '' @
                          textOf (nthOpt parts 1) @ '' total)'',
                   val = mountPoint, disabled = None\<rparr>]
            else []))"

definition getDrives_v1 :: "env \<Rightarrow> string list \<times> (error + string choice list)" where
  "getDrives_v1 e =
     (case exec e (command_v1 e) of
        ExecError \<Rightarrow> ([command_v1 e], Inr [])
      | Stdout out \<Rightarrow>
          (let lines = drop 1 (splitOn newline (trim e out)) in
           ([command_v1 e],
            Inr (if isWindows e then concat (map (wmicDrive_v1 e) lines)
                 else concat (map (dfDrive_v1 e) lines)))))"

subsection \<open>Starting the engine (\<^verbatim>\<open>startWipeProcess\<close>, \<^verbatim>\<open>startWipeSequence\<close>)\<close>

text \<open>
  How a run through \<^verbatim>\<open>startWipeSequence\<close> ends: the engine is spawned (executable and
  argument vector), or control goes back to \<^verbatim>\<open>main\<close> with a notice, or an exception
  leaves the function (\<^verbatim>\<open>path.normalize\<close> throws on a target that is not a string).
  \<open>NoAnswer\<close> marks a combination of answers that the prompts cannot
  return (an entry that is not offered, a number that \<^verbatim>\<open>validate\<close> turns down).
\<close>

datatype notice = NoDrivesFound | OperatorCancelled | RootRequired | ConfirmationMismatch

datatype outcome =
    Spawned string "string list"
  | MainMenu notice
  | NoAnswer
  | Thrown error

definition startWipeProcess :: "env \<Rightarrow> string list \<Rightarrow> outcome" where
  "startWipeProcess e args = Spawned (pythonExecutable e) (mainPy e # args)"

definition startWipeProcess_v1 :: "env \<Rightarrow> string \<Rightarrow> string \<Rightarrow> outcome" where
  "startWipeProcess_v1 e targetPath mode =
     Spawned (pythonExecutable e) [mainPy e, ''--path'', targetPath, ''--mode'', mode]"

text \<open>What the operator answers at the prompts of \<^verbatim>\<open>index.js\<close>.\<close>

record answers =
  pickTarget :: "json option"
  pickMode :: string
  pickFs :: string
  typePasses :: "rat option"
  typeConfirmation :: string

definition wipeModeChoices :: "string entry list" where
  "wipeModeChoices =
     [plain ''Secure Wipe - 4-step: full format, quick reformat, fill free space, final quick format.'' ''secure'',
      plain ''Paranoid Wipe - Overwrites the entire partition multiple times, then formats.'' ''paranoid'',
      plain ''Legacy Fast Wipe - Destroy metadata (first 512MB), then quick format.'' ''legacy-fast'',
      Separator,
      plain ''Cancel'' ''cancel'']"

definition fsChoices :: "env \<Rightarrow> string entry list" where
  "fsChoices e =
     (if isWindows e then [plain ''NTFS'' ''NTFS'', plain ''exFAT'' ''exFAT'']
      else [plain ''ext4'' ''ext4'', plain ''exFAT'' ''exfat'', plain ''VFAT (FAT32)'' ''vfat''])"

text \<open>
  The number prompt for the passes: an empty answer (\<open>None\<close>) stands for the default, and
  the prompt returns only a number that \<^verbatim>\<open>validate\<close> accepts. (\<^verbatim>\<open>NaN\<close>, which
  \<^verbatim>\<open>Number.isInteger\<close> turns down, is not among the numbers here.)
\<close>

definition validatePasses :: "rat \<Rightarrow> bool" where
  "validatePasses v = (v = of_int \<lfloor>v\<rfloor> \<and> 1 \<le> v \<and> v \<le> 10)"

definition promptNumber :: "rat \<Rightarrow> (rat \<Rightarrow> bool) \<Rightarrow> rat option \<Rightarrow> rat option" where
  "promptNumber dflt validate a =
     (let v = (case a of None \<Rightarrow> dflt | Some x \<Rightarrow> x) in
      if validate v then Some v else None)"

text \<open>Lines 229 to 237: the passes are asked for in paranoid mode only.\<close>

definition askPasses :: "string \<Rightarrow> rat option \<Rightarrow> string list option" where
  "askPasses wipeMode typed =
     (if wipeMode = ''paranoid''
      then map_option (\<lambda>passes. [''--passes'', showInt \<lfloor>passes\<rfloor>])
             (promptNumber 3 validatePasses typed)
      else Some [])"

text \<open>Lines 246 to 265: the typed confirmation, the uid, and the start of the engine.\<close>

definition confirmAndStart ::
  "env \<Rightarrow> json option \<Rightarrow> string \<Rightarrow> string \<Rightarrow> string list \<Rightarrow> string \<Rightarrow> outcome" where
  "confirmAndStart e targetPath wipeMode filesystem passesArg confirmation =
     (case targetPath of
        Some (JStr t) \<Rightarrow>
          (let normalizedConfirm = trim e (pathNormalize e confirmation);
               normalizedTarget = trim e (pathNormalize e t)
           in if toLowerCase e normalizedConfirm = toLowerCase e normalizedTarget
              then
                if \<not> isWindows e \<and> getuid e \<noteq> None \<and> getuid e \<noteq> Some 0
                then MainMenu RootRequired
                else startWipeProcess e
                       ([''--path'', t, ''--mode'', wipeMode, ''--filesystem'', filesystem] @ passesArg)
              else MainMenu ConfirmationMismatch)
      | _ \<Rightarrow> Thrown TypeError)"

definition startWipeSequence :: "env \<Rightarrow> answers \<Rightarrow> outcome" where
  "startWipeSequence e a =
     (case snd (getDrives e) of
        Inl err \<Rightarrow> Thrown err
      | Inr drives \<Rightarrow>
          if length drives = 0 then MainMenu NoDrivesFound
          else
            (case promptList (map Choice drives @ [Separator, plain ''Cancel'' (Some (JStr ''cancel''))])
                    (pickTarget a) of
               None \<Rightarrow> NoAnswer
             | Some targetPath \<Rightarrow>
                 if targetPath = Some (JStr ''cancel'') then MainMenu OperatorCancelled
                 else
                   (case promptList wipeModeChoices (pickMode a) of
                      None \<Rightarrow> NoAnswer
                    | Some wipeMode \<Rightarrow>
                        if wipeMode = ''cancel'' then MainMenu OperatorCancelled
                        else
                          (case promptList (fsChoices e @ [Separator, plain ''Cancel'' ''cancel''])
                                  (pickFs a) of
                             None \<Rightarrow> NoAnswer
                           | Some targetFs \<Rightarrow>
                               if targetFs = ''cancel'' then MainMenu OperatorCancelled
                               else
                                 (case askPasses wipeMode (typePasses a) of
                                    None \<Rightarrow> NoAnswer
                                  | Some passesArg \<Rightarrow>
                                      confirmAndStart e targetPath wipeMode targetFs passesArg
                                        (typeConfirmation a))))))"

text \<open>The older revision: no filesystem, no passes, no uid.\<close>

record answers_v1 =
  pickTarget_v1 :: string
  pickMode_v1 :: string
  typeConfirmation_v1 :: string

definition wipeModeChoices_v1 :: "string entry list" where
  "wipeModeChoices_v1 =
     [plain ''Quick Wipe (Fast, Insecure) - Deletes files without overwriting. Data IS recoverable.'' ''quick'',
      plain ''Secure Wipe (Slow, Recommended) - Overwrites files once, then fills free space.'' ''secure'',
      plain ''Paranoid Wipe (Very Slow) - Overwrites files 3 times, then fills free space.'' ''paranoid'',
      Separator,
      plain ''Cancel (Back to Main Menu)'' ''cancel'']"

text \<open>\<^verbatim>\<open>s.replace(/\\$/, '')\<close>: one backslash at the very end goes.\<close>

definition dropBackslash :: "string \<Rightarrow> string" where
  "dropBackslash s = (if s \<noteq> [] \<and> last s = CHR 0x5C then butlast s else s)"

text \<open>Lines 212 to 227 of the older revision.\<close>

definition confirmAndStart_v1 :: "env \<Rightarrow> string \<Rightarrow> string \<Rightarrow> string \<Rightarrow> outcome" where
  "confirmAndStart_v1 e resolvedPath wipeMode confirmation =
     (let normalizedConfirmation = dropBackslash (pathNormalize e confirmation);
          normalizedTargetPath = dropBackslash (pathNormalize e resolvedPath)
      in if toLowerCase e normalizedConfirmation = toLowerCase e normalizedTargetPath
         then startWipeProcess_v1 e resolvedPath wipeMode
         else MainMenu ConfirmationMismatch)"

definition startWipeSequence_v1 :: "env \<Rightarrow> answers_v1 \<Rightarrow> outcome" where
  "startWipeSequence_v1 e a =
     (case snd (getDrives_v1 e) of
        Inl err \<Rightarrow> Thrown err
      | Inr drives \<Rightarrow>
          if length drives = 0 then MainMenu NoDrivesFound
          else
            (case promptList (map Choice drives @ [Separator, plain ''Cancel'' ''cancel''])
                    (pickTarget_v1 a) of
               None \<Rightarrow> NoAnswer
             | Some targetPath \<Rightarrow>
                 if targetPath = ''cancel'' then MainMenu OperatorCancelled
                 else
                   (case promptList wipeModeChoices_v1 (pickMode_v1 a) of
                      None \<Rightarrow> NoAnswer
                    | Some wipeMode \<Rightarrow>
                        if wipeMode = ''cancel'' then MainMenu OperatorCancelled
                        else confirmAndStart_v1 e (pathResolve e targetPath) wipeMode
                               (typeConfirmation_v1 a))))"

subsection \<open>The engine's output (\<^verbatim>\<open>processOutput\<close>)\<close>

text \<open>
  The state that \<^verbatim>\<open>startWipeProcess\<close> keeps for the screen: the phase shown and the
  log. A log line is kept as its prefix and its message (the time of day in front of it is
  left out). The prefix is looked up in \<^verbatim>\<open>{ error: ..., status: ... }\<close>; a key that
  names a member every object inherits finds that member, any other key falls to \<^verbatim>\<open>LOG\<close>.
\<close>

datatype prefix = ErrorPrefix | InfoPrefix | LogPrefix | Inherited string

record ui =
  currentPhase :: "json option"
  logMessages :: "(prefix \<times> string) list"

definition inheritedKeys :: "string list" where
  "inheritedKeys =
     [''constructor'', ''hasOwnProperty'', ''isPrototypeOf'', ''propertyIsEnumerable'',
      ''toLocaleString'', ''toString'', ''valueOf'', ''__proto__'',
      ''__defineGetter__'', ''__defineSetter__'', ''__lookupGetter__'', ''__lookupSetter__'']"

definition prefixOf :: "string \<Rightarrow> prefix" where
  "prefixOf k =
     (if k = ''error'' then ErrorPrefix
      else if k = ''status'' then InfoPrefix
      else if k \<in> set inheritedKeys then Inherited k
      else LogPrefix)"

text \<open>A value inside a template literal, or used as a property key.\<close>

definition asText :: "env \<Rightarrow> json option \<Rightarrow> error + string" where
  "asText e v =
     (case v of
        None \<Rightarrow> Inr ''undefined''
      | Some JNull \<Rightarrow> Inr ''null''
      | Some (JBool b) \<Rightarrow> Inr (if b then ''true'' else ''false'')
      | Some (JStr s) \<Rightarrow> Inr s
      | Some j \<Rightarrow> toText e j)"

text \<open>\<^verbatim>\<open>addLog(message, type = 'status')\<close>: the default stands in for \<^verbatim>\<open>undefined\<close>.\<close>

definition addLog :: "env \<Rightarrow> json option \<Rightarrow> json option \<Rightarrow> ui \<Rightarrow> error + ui" where
  "addLog e message ty st =
     (case asText e (if ty = None then Some (JStr ''status'') else ty) of
        Inl err \<Rightarrow> Inl err
      | Inr k \<Rightarrow>
          (case asText e message of
             Inl err \<Rightarrow> Inl err
           | Inr m \<Rightarrow> Inr (st\<lparr>logMessages := logMessages st @ [(prefixOf k, m)]\<rparr>)))"

text \<open>The \<^verbatim>\<open>try\<close> block of the callback, and the callback with its \<^verbatim>\<open>catch\<close>.\<close>

definition tryLine :: "env \<Rightarrow> ui \<Rightarrow> string \<Rightarrow> error + ui" where
  "tryLine e st line =
     (case parse e line of
        None \<Rightarrow> Inl SyntaxError
      | Some jsonData \<Rightarrow>
          (case getProp jsonData ''type'' of
             Inl err \<Rightarrow> Inl err
           | Inr ty \<Rightarrow>
               if ty = Some (JStr ''progress'')
               then (case getProp jsonData ''phase'' of
                       Inl err \<Rightarrow> Inl err
                     | Inr ph \<Rightarrow> Inr (st\<lparr>currentPhase := ph\<rparr>))
               else (case getProp jsonData ''message'' of
                       Inl err \<Rightarrow> Inl err
                     | Inr m \<Rightarrow> addLog e m ty st)))"

definition processLine :: "env \<Rightarrow> ui \<Rightarrow> string \<Rightarrow> error + ui" where
  "processLine e st line =
     (case tryLine e st line of
        Inr st' \<Rightarrow> Inr st'
      | Inl _ \<Rightarrow> addLog e (Some (JStr line)) (Some (JStr ''raw'')) st)"

text \<open>\<^verbatim>\<open>forEach\<close>: an exception that leaves the callback ends the loop.\<close>

fun forEach :: "('s \<Rightarrow> 'a \<Rightarrow> error + 's) \<Rightarrow> 's \<Rightarrow> 'a list \<Rightarrow> error + 's" where
  "forEach f st [] = Inr st"
| "forEach f st (x # xs) =
     (case f st x of
        Inl err \<Rightarrow> Inl err
      | Inr st' \<Rightarrow> forEach f st' xs)"

definition processOutput :: "env \<Rightarrow> ui \<Rightarrow> string \<Rightarrow> error + ui" where
  "processOutput e st data = forEach (processLine e) st (splitOn newline (trim e data))"

text \<open>A line that holds a progress record.\<close>

definition isProgress :: "env \<Rightarrow> string \<Rightarrow> bool" where
  "isProgress e l =
     (case parse e l of
        None \<Rightarrow> False
      | Some j \<Rightarrow> getProp j ''type'' = Inr (Some (JStr ''progress'')))"

text \<open>
  The same handling of one line in the words of the specification, to compare with
  \<open>processLine\<close>: a line holds one record; a record of type \<^verbatim>\<open>progress\<close> sets the
  current phase; a record of another type is appended to the log, its message under the
  prefix of its type; a line that holds no record is logged as raw text. What is not a
  record: text that is not JSON, \<^verbatim>\<open>null\<close>, and a record whose type or message has no text.
\<close>

definition member :: "json \<Rightarrow> string \<Rightarrow> json option" where
  "member j k = (case j of JObj kvs \<Rightarrow> map_of kvs k | _ \<Rightarrow> None)"

definition logged :: "prefix \<Rightarrow> string \<Rightarrow> ui \<Rightarrow> ui" where
  "logged p t st = st\<lparr>logMessages := logMessages st @ [(p, t)]\<rparr>"

definition lineEffect :: "env \<Rightarrow> ui \<Rightarrow> string \<Rightarrow> ui" where
  "lineEffect e st l =
     (case parse e l of
        None \<Rightarrow> logged LogPrefix l st
      | Some JNull \<Rightarrow> logged LogPrefix l st
      | Some j \<Rightarrow>
          if member j ''type'' = Some (JStr ''progress'')
          then st\<lparr>currentPhase := member j ''phase''\<rparr>
          else
            (case (asText e (case member j ''type'' of
                               None \<Rightarrow> Some (JStr ''status'')
                             | Some ty \<Rightarrow> Some ty),
                   asText e (member j ''message'')) of
               (Inr k, Inr m) \<Rightarrow> logged (prefixOf k) m st
             | _ \<Rightarrow> logged LogPrefix l st))"

subsection \<open>The engine's output in the older revision\<close>

text \<open>
  The older revision keeps no phase and no log: each handler prints. What a handler
  prints for one chunk, in order; \<open>ConsoleLog\<close> is \<^verbatim>\<open>console.log\<close> and \<open>ConsoleError\<close> is
  \<^verbatim>\<open>console.error\<close>. The handler of stdout parses the trimmed chunk as one JSON text
  (lines 99 to 124); the handler of stderr parses nothing (lines 126 to 129).
\<close>

datatype console = ConsoleLog string | ConsoleError string

definition tryStdout_v1 :: "env \<Rightarrow> string \<Rightarrow> error + console list" where
  "tryStdout_v1 e message =
     (case parse e message of
        None \<Rightarrow> Inl SyntaxError
      | Some jsonData \<Rightarrow>
          (case getProp jsonData ''type'' of
             Inl err \<Rightarrow> Inl err
           | Inr ty \<Rightarrow>
               if ty = Some (JStr ''progress'')
               then (case progressBar e jsonData of
                       Inl err \<Rightarrow> Inl err
                     | Inr t \<Rightarrow> Inr [ConsoleLog t])
               else if ty = Some (JStr ''status'')
               then (case getProp jsonData ''message'' of
                       Inl err \<Rightarrow> Inl err
                     | Inr v \<Rightarrow>
                         (case asText e v of
                            Inl err \<Rightarrow> Inl err
                          | Inr m \<Rightarrow> Inr [ConsoleLog (''[ENGINE] '' @ m)]))
               else if ty = Some (JStr ''error'')
               then (case getProp jsonData ''message'' of
                       Inl err \<Rightarrow> Inl err
                     | Inr v \<Rightarrow>
                         (case asText e v of
                            Inl err \<Rightarrow> Inl err
                          | Inr m \<Rightarrow> Inr [ConsoleError (''[ENGINE_ERROR] '' @ m)]))
               else Inr []))"

definition onStdout_v1 :: "env \<Rightarrow> string \<Rightarrow> console list" where
  "onStdout_v1 e data =
     (let message = trim e data in
      if message = [] then []
      else (case tryStdout_v1 e message of
              Inr printed \<Rightarrow> printed
            | Inl _ \<Rightarrow> [ConsoleLog (''[ENGINE] '' @ message)]))"

definition onStderr_v1 :: "env \<Rightarrow> string \<Rightarrow> console list" where
  "onStderr_v1 e data =
     (let message = trim e data in
      if message = [] then [] else [ConsoleError (''[ENGINE_ERROR] '' @ message)])"

subsection \<open>The engine's safety guard\<close>

text \<open>
  Modelled from the spec: the engine \<^verbatim>\<open>main.py\<close> is not among the sources, so its
  validation step is written from sections 3, 4.2, 4.4 and 6 of the specification. The
  guard resolves the target of a request to exactly one record of the inventory and
  enforces, in the order of section 4.2: the target exists, it is not a system volume, the
  passes lie in 1 to 10, the mode is one of the four. A violation ends the session as
  \<open>Failed\<close> with one error event and no byte written, before anything else runs; what runs
  after a request has passed (\<open>wipe\<close>, the scheduler) is an argument.
\<close>

record DriveRecord =
  devicePathOrMount :: string
  label :: string
  filesystemType :: string
  totalBytes :: nat
  isSystemVolume :: bool
  isRemovable :: bool

record WipeRequest =
  targetPath :: string
  mode :: string
  targetFilesystem :: string
  passes :: int
  dryRun :: bool

datatype ValidationError = TargetNotFound | SystemVolumeRefused | PassesOutOfRange | UnknownMode

datatype state = Idle | Validating | Wiping nat | Formatting | Completed | Cancelled | Failed

datatype event = StatusEvent string | ErrorEvent ValidationError

record session =
  state :: state
  events :: "event list"
  bytesWritten :: nat

definition safetyGuard :: "WipeRequest \<Rightarrow> DriveRecord list \<Rightarrow> ValidationError + DriveRecord" where
  "safetyGuard req drives =
     (case filter (\<lambda>d. devicePathOrMount d = targetPath req) drives of
        [d] \<Rightarrow>
          if isSystemVolume d then Inl SystemVolumeRefused
          else if passes req < 1 \<or> 10 < passes req then Inl PassesOutOfRange
          else if mode req \<notin> set [''quick'', ''secure'', ''paranoid'', ''legacy-fast'']
          then Inl UnknownMode
          else Inr d
      | _ \<Rightarrow> Inl TargetNotFound)"

definition runEngine ::
  "(WipeRequest \<Rightarrow> DriveRecord \<Rightarrow> session) \<Rightarrow> WipeRequest \<Rightarrow> DriveRecord list \<Rightarrow> session" where
  "runEngine wipe req drives =
     (case safetyGuard req drives of
        Inl v \<Rightarrow> \<lparr>state = Failed, events = [ErrorEvent v], bytesWritten = 0\<rparr>
      | Inr d \<Rightarrow> wipe req d)"

text \<open>
  Modelled from the spec: the exit codes of section 6. \<open>exitCodeOf s c\<close>: a session that
  ended in state \<open>s\<close> may exit with code \<open>c\<close>.
\<close>

definition exitCodeOf :: "state \<Rightarrow> int \<Rightarrow> bool" where
  "exitCodeOf s c =
     (case s of
        Completed \<Rightarrow> c = 0
      | Cancelled \<Rightarrow> c = 130
      | Failed \<Rightarrow> c \<noteq> 0 \<and> c \<noteq> 130
      | _ \<Rightarrow> False)"

subsection \<open>The end of the engine process\<close>

text \<open>
  The \<^verbatim>\<open>close\<close> handler of \<^verbatim>\<open>startWipeProcess\<close> receives the exit code of the engine,
  a number, or \<^verbatim>\<open>null\<close> (here \<open>None\<close>) when a signal ended the process. It prints one of
  three reports; the failure report shows the code.
\<close>

datatype report =
    CompletedSuccessfully
  | SafelyCancelled
  | FailedWithExitCode "int option"

definition onClose :: "int option \<Rightarrow> report" where
  "onClose code =
     (if code = Some 0 then CompletedSuccessfully
      else if code = Some 130 then SafelyCancelled
      else FailedWithExitCode code)"

definition onClose_v1 :: "int option \<Rightarrow> report" where
  "onClose_v1 code =
     (if code = Some 0 then CompletedSuccessfully
      else if code = Some 130 then SafelyCancelled
      else FailedWithExitCode code)"

section \<open>A worked example\<close>

text \<open>
  A Linux machine with two partitions: the engine's listing reports \<^verbatim>\<open>/dev/sdb1\<close> and
  the system volume \<^verbatim>\<open>/dev/sda1\<close>. \<open>examplePlatform\<close> is the same machine with the engine's
  listing out of order, so that only \<^verbatim>\<open>lsblk\<close> answers, and \<open>examplePlatform_v1\<close> is the
  machine as the older revision asks it, through \<^verbatim>\<open>df\<close>. The JSON parser of the example
  knows the lines the engine prints here and \<^verbatim>\<open>null\<close>; paths are already normal.
\<close>

text \<open>
  The text of the example is ASCII throughout. On such text the built-ins do what the
  following functions do, and the example's environment uses them: white space is the six
  ASCII characters, letters are A to Z, and a size is below \<open>2 ^ 53\<close>, where
  \<^verbatim>\<open>parseInt\<close> and the division by \<open>2 ^ 30\<close> lose nothing and \<^verbatim>\<open>toFixed(1)\<close> is the
  nearest multiple of one tenth.
\<close>

definition asciiSpace :: "char \<Rightarrow> bool" where
  "asciiSpace c = (c \<in> set [CHR 0x09, CHR 0x0A, CHR 0x0B, CHR 0x0C, CHR 0x0D, CHR 0x20])"

definition asciiTrim :: "string \<Rightarrow> string" where
  "asciiTrim s = rev (dropWhile asciiSpace (rev (dropWhile asciiSpace s)))"

definition asciiLowerChar :: "char \<Rightarrow> char" where
  "asciiLowerChar c =
     (case map_of (zip ''ABCDEFGHIJKLMNOPQRSTUVWXYZ'' ''abcdefghijklmnopqrstuvwxyz'') c of
        Some d \<Rightarrow> d
      | None \<Rightarrow> c)"

definition asciiLowerCase :: "string \<Rightarrow> string" where
  "asciiLowerCase s = map asciiLowerChar s"

fun glue :: "string \<Rightarrow> string list \<Rightarrow> string list" where
  "glue p [] = [p]"
| "glue p (w # ws) = (p @ w) # ws"

function asciiSplitWs :: "nat \<Rightarrow> string \<Rightarrow> string list" where
  "asciiSplitWs k [] = [[]]"
| "asciiSplitWs k (x # xs) =
     (if asciiSpace x then
        (if k \<le> Suc (length (takeWhile asciiSpace xs))
         then [] # asciiSplitWs k (dropWhile asciiSpace xs)
         else glue (x # takeWhile asciiSpace xs) (asciiSplitWs k (dropWhile asciiSpace xs)))
      else glue [x] (asciiSplitWs k xs))"
  by pat_completeness auto
termination
  by (relation "measure (\<lambda>(k, s). length s)") (auto simp: length_dropWhile_le less_Suc_eq_le)

definition isDigit :: "char \<Rightarrow> bool" where
  "isDigit c = (c \<in> set ''0123456789'')"

definition digitVal :: "char \<Rightarrow> int" where
  "digitVal c = of_char c - 48"

definition asciiParseInt :: "string \<Rightarrow> int option" where
  "asciiParseInt s =
     (let t = dropWhile asciiSpace s;
          neg = (t \<noteq> [] \<and> hd t = CHR ''-'');
          u = (if t \<noteq> [] \<and> (hd t = CHR ''-'' \<or> hd t = CHR ''+'') then tl t else t);
          ds = takeWhile isDigit u
      in if ds = [] then None
         else Some ((if neg then - 1 else 1) * foldl (\<lambda>n c. 10 * n + digitVal c) 0 ds))"

definition asciiSizeGB :: "string \<Rightarrow> string option" where
  "asciiSizeGB s =
     (case asciiParseInt s of
        None \<Rightarrow> None
      | Some b \<Rightarrow>
          (let n = nat ((20 * \<bar>b\<bar> + 1073741824) div 2147483648)
           in Some ((if b < 0 then ''-'' else []) @ showNat (n div 10) @ ''.'' @
                    showNat (n mod 10))))"

definition quoted :: "string \<Rightarrow> string" where
  "quoted s = [CHR 0x22] @ s @ [CHR 0x22]"

definition drivesLine :: string where
  "drivesLine =
     ''{'' @ quoted ''type'' @ '': '' @ quoted ''drives'' @ '', '' @ quoted ''items'' @ '': [{'' @
     quoted ''device'' @ '': '' @ quoted ''/dev/sdb1'' @ '', '' @ quoted ''is_system'' @ '': false}, {'' @
     quoted ''device'' @ '': '' @ quoted ''/dev/sda1'' @ '', '' @ quoted ''is_system'' @ '': true}]}''"

definition progressLine :: string where
  "progressLine =
     ''{'' @ quoted ''type'' @ '': '' @ quoted ''progress'' @ '', '' @ quoted ''phase'' @ '': '' @
     quoted ''Pass 1/3'' @ ''}''"

definition statusLine :: string where
  "statusLine =
     ''{'' @ quoted ''type'' @ '': '' @ quoted ''status'' @ '', '' @ quoted ''message'' @ '': '' @
     quoted ''pass started'' @ ''}''"

definition errorLine :: string where
  "errorLine =
     ''{'' @ quoted ''type'' @ '': '' @ quoted ''error'' @ '', '' @ quoted ''message'' @ '': '' @
     quoted ''Permission denied'' @ ''}''"

definition sdb1 :: json where
  "sdb1 = JObj [(''device'', JStr ''/dev/sdb1''), (''is_system'', JBool False)]"

definition sda1 :: json where
  "sda1 = JObj [(''device'', JStr ''/dev/sda1''), (''is_system'', JBool True)]"

definition exampleParse :: "string \<Rightarrow> json option" where
  "exampleParse =
     map_of
       [(drivesLine, JObj [(''type'', JStr ''drives''), (''items'', JArr [sdb1, sda1])]),
        (progressLine, JObj [(''type'', JStr ''progress''), (''phase'', JStr ''Pass 1/3'')]),
        (statusLine, JObj [(''type'', JStr ''status''), (''message'', JStr ''pass started'')]),
        (errorLine, JObj [(''type'', JStr ''error''), (''message'', JStr ''Permission denied'')]),
        (''null'', JNull)]"

definition listingOnly :: "string \<Rightarrow> exec_result" where
  "listingOnly c =
     (if c = quoted ''python3'' @ '' '' @ quoted ''/opt/scrubber/main.py'' @
             '' -p /dev/null -m secure -f ext4 --list-drives --dry-run''
      then Stdout (''scanning'' @ [newline] @ drivesLine @ [newline])
      else ExecError)"

definition lsblkOnly :: "string \<Rightarrow> exec_result" where
  "lsblkOnly c =
     (if c = ''lsblk -o NAME,FSTYPE,SIZE,MOUNTPOINT -b -p -n''
      then Stdout (''/dev/sdb1 vfat 16008609792 /media/usb'' @ [newline] @
                   ''/dev/sda 500107862016'' @ [newline])
      else ExecError)"

definition dfOnly :: "string \<Rightarrow> exec_result" where
  "dfOnly c =
     (if c = ''df -h''
      then Stdout (''Filesystem      Size  Used Avail Use% Mounted on'' @ [newline] @
                   ''/dev/sdb1        15G  1.2G   14G   8% /media/usb'' @ [newline])
      else ExecError)"

definition exampleDriveName :: "json \<Rightarrow> error + string" where
  "exampleDriveName d =
     (if d = sdb1 then Inr ''/dev/sdb1 (Unknown, N/A) [INTERNAL]''
      else if d = sda1 then Inr ''/dev/sda1 (Unknown, N/A) [INTERNAL] [SYSTEM]''
      else Inl TypeError)"

text \<open>
  The progress record of the example has no \<^verbatim>\<open>percentage\<close>, \<^verbatim>\<open>speed\<close> or \<^verbatim>\<open>eta\<close>:
  both counts of \<^verbatim>\<open>repeat\<close> are \<^verbatim>\<open>NaN\<close>, the bar is empty, and the three members
  print as \<^verbatim>\<open>undefined\<close>.
\<close>

definition exampleProgressBar :: "json \<Rightarrow> error + string" where
  "exampleProgressBar j =
     (if j = JObj [(''type'', JStr ''progress''), (''phase'', JStr ''Pass 1/3'')]
      then Inr ''[Pass 1/3]  undefined% (undefined, ETA: undefined)''
      else Inl (Error ''RangeError''))"

definition exampleEnv :: env where
  "exampleEnv =
     \<lparr>isWindows = False, getuid = Some 0, mainPy = ''/opt/scrubber/main.py'',
      exec = listingOnly, parse = exampleParse,
      pathNormalize = (\<lambda>s. s), pathResolve = (\<lambda>s. s),
      trim = asciiTrim, toLowerCase = asciiLowerCase, splitWs = asciiSplitWs,
      sizeGB = asciiSizeGB,
      toText = (\<lambda>j. Inr ''[object Object]''), driveName = exampleDriveName,
      progressBar = exampleProgressBar\<rparr>"

definition examplePlatform :: env where
  "examplePlatform = exampleEnv\<lparr>exec := lsblkOnly\<rparr>"

definition examplePlatform_v1 :: env where
  "examplePlatform_v1 = exampleEnv\<lparr>exec := dfOnly\<rparr>"

definition exampleAnswers :: answers where
  "exampleAnswers =
     \<lparr>pickTarget = Some (JStr ''/dev/sdb1''), pickMode = ''paranoid'', pickFs = ''ext4'',
      typePasses = None, typeConfirmation = ''/DEV/sdb1 ''\<rparr>"

definition exampleAnswers_v1 :: answers_v1 where
  "exampleAnswers_v1 =
     \<lparr>pickTarget_v1 = ''/media/usb'', pickMode_v1 = ''secure'',
      typeConfirmation_v1 = ''/media/USB''\<rparr>"

definition exampleUi :: ui where
  "exampleUi = \<lparr>currentPhase = Some (JStr ''Initializing...''), logMessages = []\<rparr>"

text \<open>
  Two chunks of the engine's output: a line of a system tool followed by two records, and
  two records alone.
\<close>

definition exampleChunk :: string where
  "exampleChunk =
     ''mkfs.ext4: done'' @ [newline] @ progressLine @ [newline] @ statusLine @ [newline]"

definition twoRecords :: string where
  "twoRecords = statusLine @ [newline] @ progressLine @ [newline]"

definition exampleInventory :: "DriveRecord list" where
  "exampleInventory =
     [\<lparr>devicePathOrMount = ''/dev/sdb1'', label = ''USB'', filesystemType = ''vfat'',
       totalBytes = 16008609792, isSystemVolume = False, isRemovable = True\<rparr>,
      \<lparr>devicePathOrMount = ''/dev/sda1'', label = ''root'', filesystemType = ''ext4'',
       totalBytes = 500107862016, isSystemVolume = True, isRemovable = False\<rparr>]"

definition exampleRequest :: WipeRequest where
  "exampleRequest =
     \<lparr>targetPath = ''/dev/sda1'', mode = ''secure'', targetFilesystem = ''ext4'',
      passes = 3, dryRun = False\<rparr>"

text \<open>A scheduler that wipes whatever it is handed.\<close>

definition wipeAll :: "WipeRequest \<Rightarrow> DriveRecord \<Rightarrow> session" where
  "wipeAll req d = \<lparr>state = Completed, events = [], bytesWritten = totalBytes d\<rparr>"

section \<open>Properties\<close>

subsection \<open>Auxiliary facts\<close>

lemma addLog_raw:
  "addLog e (Some (JStr l)) (Some (JStr ''raw'')) st =
     Inr (st\<lparr>logMessages := logMessages st @ [(LogPrefix, l)]\<rparr>)"
  by (simp add: addLog_def asText_def prefixOf_def inheritedKeys_def)

lemma addLog_appends:
  "addLog e m ty st = Inr st' \<Longrightarrow>
   \<exists>p t. st' = st\<lparr>logMessages := logMessages st @ [(p, t)]\<rparr>"
  by (auto simp: addLog_def split: sum.splits)

lemma processLine_no_parse:
  "parse e l = None \<Longrightarrow>
   processLine e st l = Inr (st\<lparr>logMessages := logMessages st @ [(LogPrefix, l)]\<rparr>)"
  by (simp add: processLine_def tryLine_def addLog_raw)

lemma processLine_progress:
  "parse e l = Some j \<Longrightarrow> getProp j ''type'' = Inr (Some (JStr ''progress'')) \<Longrightarrow>
   \<exists>ph. getProp j ''phase'' = Inr ph \<and> processLine e st l = Inr (st\<lparr>currentPhase := ph\<rparr>)"
  by (cases j) (auto simp: processLine_def tryLine_def)

lemma processLine_other:
  "parse e l = Some j \<Longrightarrow> getProp j ''type'' \<noteq> Inr (Some (JStr ''progress'')) \<Longrightarrow>
   \<exists>p t. processLine e st l = Inr (st\<lparr>logMessages := logMessages st @ [(p, t)]\<rparr>)"
  by (auto simp: processLine_def tryLine_def addLog_raw split: sum.splits dest: addLog_appends)

lemma processLine_message:
  "parse e l = Some (JObj kvs) \<Longrightarrow> map_of kvs ''type'' = Some (JStr k) \<Longrightarrow> k \<noteq> ''progress'' \<Longrightarrow>
   map_of kvs ''message'' = Some (JStr m) \<Longrightarrow>
   processLine e st l = Inr (st\<lparr>logMessages := logMessages st @ [(prefixOf k, m)]\<rparr>)"
  by (simp add: processLine_def tryLine_def addLog_def asText_def)

lemma processLine_total: "\<exists>st'. processLine e st l = Inr st'"
  by (auto simp: processLine_def addLog_raw split: sum.splits)

lemma processLine_log_length:
  assumes "processLine e st l = Inr st'"
  shows "length (logMessages st') =
           length (logMessages st) + (if isProgress e l then 0 else 1)"
proof (cases "parse e l")
  case None
  with assms show ?thesis by (auto simp: processLine_no_parse isProgress_def)
next
  case (Some j)
  show ?thesis
  proof (cases "getProp j ''type'' = Inr (Some (JStr ''progress''))")
    case True
    with Some assms processLine_progress [of e l j st] show ?thesis
      by (auto simp: isProgress_def)
  next
    case False
    with Some assms processLine_other [of e l j st] show ?thesis
      by (auto simp: isProgress_def)
  qed
qed

lemma forEach_log_length:
  "forEach (processLine e) st ls = Inr st' \<Longrightarrow>
   length (logMessages st') =
     length (logMessages st) + length (filter (\<lambda>l. \<not> isProgress e l) ls)"
proof (induction ls arbitrary: st)
  case Nil
  then show ?case by simp
next
  case (Cons l ls)
  obtain s where s: "processLine e st l = Inr s" using processLine_total by blast
  with Cons.prems have "forEach (processLine e) s ls = Inr st'" by simp
  from Cons.IH [OF this] processLine_log_length [OF s] show ?case by simp
qed

lemma forEach_processLine_total: "\<exists>st'. forEach (processLine e) st ls = Inr st'"
proof (induction ls arbitrary: st)
  case Nil
  show ?case by simp
next
  case (Cons l ls)
  obtain s where "processLine e st l = Inr s" using processLine_total by blast
  with Cons show ?case by simp
qed

lemma confirmAndStart_Spawned:
  assumes "confirmAndStart e tp m f p c = Spawned exe args"
  shows "\<exists>t. tp = Some (JStr t) \<and>
             toLowerCase e (trim e (pathNormalize e c)) = toLowerCase e (trim e (pathNormalize e t)) \<and>
             (isWindows e \<or> getuid e = None \<or> getuid e = Some 0) \<and>
             exe = pythonExecutable e \<and>
             args = [mainPy e, ''--path'', t, ''--mode'', m, ''--filesystem'', f] @ p"
  using assms
  by (auto simp: confirmAndStart_def startWipeProcess_def Let_def
      split: option.splits json.splits if_splits)

lemma startWipeSequence_Spawned:
  assumes "startWipeSequence e a = Spawned exe args"
  shows "\<exists>drives p.
           snd (getDrives e) = Inr drives \<and> drives \<noteq> [] \<and>
           pickTarget a \<in> set (selectable (map Choice drives @
                                   [Separator, plain ''Cancel'' (Some (JStr ''cancel''))])) \<and>
           pickTarget a \<noteq> Some (JStr ''cancel'') \<and>
           pickMode a \<in> set (selectable wipeModeChoices) \<and> pickMode a \<noteq> ''cancel'' \<and>
           pickFs a \<in> set (selectable (fsChoices e @ [Separator, plain ''Cancel'' ''cancel''])) \<and>
           pickFs a \<noteq> ''cancel'' \<and>
           askPasses (pickMode a) (typePasses a) = Some p \<and>
           confirmAndStart e (pickTarget a) (pickMode a) (pickFs a) p (typeConfirmation a) =
             Spawned exe args"
  using assms
  by (auto simp: startWipeSequence_def promptList_def
      split: sum.splits option.splits if_splits)

lemma startWipeSequence_args:
  assumes "startWipeSequence e a = Spawned exe args"
  shows "\<exists>t p. pickTarget a = Some (JStr t) \<and>
           askPasses (pickMode a) (typePasses a) = Some p \<and>
           args = [mainPy e, ''--path'', t, ''--mode'', pickMode a,
                   ''--filesystem'', pickFs a] @ p"
  using startWipeSequence_Spawned [OF assms] confirmAndStart_Spawned by blast

lemma startWipeSequence_v1_Spawned:
  assumes "startWipeSequence_v1 e b = Spawned exe args"
  shows "pickMode_v1 b \<in> set (selectable wipeModeChoices_v1) \<and> pickMode_v1 b \<noteq> ''cancel'' \<and>
         toLowerCase e (dropBackslash (pathNormalize e (typeConfirmation_v1 b))) =
           toLowerCase e (dropBackslash (pathNormalize e (pathResolve e (pickTarget_v1 b)))) \<and>
         args = [mainPy e, ''--path'', pathResolve e (pickTarget_v1 b), ''--mode'', pickMode_v1 b]"
  using assms
  by (auto simp: startWipeSequence_v1_def promptList_def confirmAndStart_v1_def
      startWipeProcess_v1_def Let_def split: sum.splits option.splits if_splits)

lemma selectable_wipeModeChoices:
  "set (selectable wipeModeChoices) = {''secure'', ''paranoid'', ''legacy-fast'', ''cancel''}"
  by (auto simp: wipeModeChoices_def plain_def)

lemma selectable_wipeModeChoices_v1:
  "set (selectable wipeModeChoices_v1) = {''quick'', ''secure'', ''paranoid'', ''cancel''}"
  by (auto simp: wipeModeChoices_v1_def plain_def)

lemma selectable_fsChoices:
  "set (selectable (fsChoices e @ [Separator, plain ''Cancel'' ''cancel''])) =
     insert ''cancel'' (set (selectable (fsChoices e))) \<and>
   set (selectable (fsChoices e)) =
     (if isWindows e then {''NTFS'', ''exFAT''} else {''ext4'', ''exfat'', ''vfat''})"
  by (auto simp: fsChoices_def plain_def)

lemma validatePasses_iff:
  "validatePasses v = (\<exists>n::int. v = of_int n \<and> 1 \<le> n \<and> n \<le> 10)"
  unfolding validatePasses_def
proof
  assume "v = of_int \<lfloor>v\<rfloor> \<and> 1 \<le> v \<and> v \<le> 10"
  then have "v = of_int \<lfloor>v\<rfloor>" "1 \<le> \<lfloor>v\<rfloor>" "\<lfloor>v\<rfloor> \<le> 10"
    by (auto simp: le_floor_iff floor_le_iff)
  then show "\<exists>n::int. v = of_int n \<and> 1 \<le> n \<and> n \<le> 10" by blast
next
  assume "\<exists>n::int. v = of_int n \<and> 1 \<le> n \<and> n \<le> 10"
  then show "v = of_int \<lfloor>v\<rfloor> \<and> 1 \<le> v \<and> v \<le> 10" by auto
qed

lemma askPasses_Some:
  assumes "askPasses m typed = Some p"
  shows "if m = ''paranoid''
         then \<exists>n::int. 1 \<le> n \<and> n \<le> 10 \<and>
                (case typed of None \<Rightarrow> n = 3 | Some v \<Rightarrow> v = of_int n) \<and>
                p = [''--passes'', showInt n]
         else p = []"
proof (cases "m = ''paranoid''")
  case False
  with assms show ?thesis by (simp add: askPasses_def)
next
  case True
  with assms obtain v where v: "promptNumber 3 validatePasses typed = Some v"
    and p: "p = [''--passes'', showInt \<lfloor>v\<rfloor>]"
    by (auto simp: askPasses_def)
  from v have ok: "validatePasses v" and vv: "v = (case typed of None \<Rightarrow> 3 | Some x \<Rightarrow> x)"
    by (auto simp: promptNumber_def Let_def split: if_splits)
  from ok obtain n :: int where n: "v = of_int n" "1 \<le> n" "n \<le> 10"
    using validatePasses_iff by blast
  have "(case typed of None \<Rightarrow> n = 3 | Some x \<Rightarrow> x = of_int n)"
    using vv n(1) by (cases typed) auto
  with n p True show ?thesis by auto
qed

subsection \<open>The worked example, evaluated\<close>

lemma example_getDrives:
  "getDrives exampleEnv =
     ([cmd exampleEnv],
      Inr [\<lparr>name = ''/dev/sdb1 (Unknown, N/A) [INTERNAL]'', val = Some (JStr ''/dev/sdb1''), disabled = None\<rparr>,
           \<lparr>name = ''/dev/sda1 (Unknown, N/A) [INTERNAL] [SYSTEM]'', val = Some (JStr ''/dev/sda1''),
            disabled = Some ''System volume (blocked)''\<rparr>])"
  by code_simp

lemma example_fallback:
  "getDrives examplePlatform =
     ([cmd examplePlatform, fallbackCmd examplePlatform],
      Inr [\<lparr>name = ''/dev/sdb1 @ /media/usb (14.9GB)'', val = Some (JStr ''/dev/sdb1''),
            disabled = None\<rparr>])"
  by code_simp

lemma example_getDrives_v1:
  "getDrives_v1 examplePlatform_v1 =
     ([''df -h''],
      Inr [\<lparr>name = ''/media/usb (14G free / 15G total)'', val = ''/media/usb'',
            disabled = None\<rparr>])"
  by code_simp

lemma example_spawn:
  "startWipeSequence exampleEnv exampleAnswers =
     Spawned ''python3''
       [''/opt/scrubber/main.py'', ''--path'', ''/dev/sdb1'', ''--mode'', ''paranoid'',
        ''--filesystem'', ''ext4'', ''--passes'', ''3'']"
  by code_simp

lemma example_spawn_v1:
  "startWipeSequence_v1 examplePlatform_v1 exampleAnswers_v1 =
     Spawned ''python3''
       [''/opt/scrubber/main.py'', ''--path'', ''/media/usb'', ''--mode'', ''secure'']"
  by code_simp

subsection \<open>Classification of the exit code\<close>

text \<open>
  Claim C2. Whenever the engine process ends, the wrapper reports exactly one of three
  outcomes: success exactly for exit code 0, safe cancellation by the user exactly for exit
  code 130, and failure for everything else (any other number, and no exit code at all).
  The three reports are distinct values, so cancellation is neither success nor failure.
  Both revisions classify alike.
\<close>

theorem exit_code_classification:
  "(onClose code = CompletedSuccessfully) = (code = Some 0) \<and>
   (onClose code = SafelyCancelled) = (code = Some 130) \<and>
   (onClose code = FailedWithExitCode code) = (code \<noteq> Some 0 \<and> code \<noteq> Some 130) \<and>
   onClose_v1 code = onClose code"
  by (simp add: onClose_def onClose_v1_def)

theorem exit_code_classification_witness:
  "onClose (Some 0) = CompletedSuccessfully \<and>
   onClose (Some 130) = SafelyCancelled \<and>
   onClose (Some 1) = FailedWithExitCode (Some 1) \<and>
   onClose None = FailedWithExitCode None \<and>
   onClose_v1 (Some 130) = SafelyCancelled"
  using exit_code_classification [of "Some 0"] exit_code_classification [of "Some 130"]
    exit_code_classification [of "Some 1"] exit_code_classification [of None]
  by simp

subsection \<open>System volumes\<close>

text \<open>
  Claim C1. A request whose target resolves to a record of the inventory with
  \<open>isSystemVolume\<close> set is refused by the engine's guard before anything is written: the
  session ends \<open>Failed\<close> with exactly one error event and zero bytes written, whatever the
  scheduler behind the guard would do and with no confirmation consulted, and 0 is not an
  exit code of a failed session. (The engine is modelled from the specification.) In the
  wrapper, a record of the engine's listing whose \<^verbatim>\<open>is_system\<close> is truthy becomes a
  disabled choice, and a disabled choice adds nothing to what the target prompt can return.
\<close>

theorem system_volume_refused:
  "(filter (\<lambda>d. devicePathOrMount d = targetPath req) drives = [d] \<and> isSystemVolume d \<longrightarrow>
      runEngine wipe req drives =
        \<lparr>state = Failed, events = [ErrorEvent SystemVolumeRefused], bytesWritten = 0\<rparr> \<and>
      \<not> exitCodeOf (state (runEngine wipe req drives)) 0) \<and>
   (getProp j ''is_system'' = Inr s \<and> truthy s \<and> driveChoice e j = Inr c \<longrightarrow>
      disabled c = Some ''System volume (blocked)'' \<and>
      selectable (Choice c # es) = selectable es)"
  by (auto simp: runEngine_def safetyGuard_def exitCodeOf_def driveChoice_def
      split: sum.splits)

theorem system_volume_refused_witness:
  "runEngine wipeAll exampleRequest exampleInventory =
     \<lparr>state = Failed, events = [ErrorEvent SystemVolumeRefused], bytesWritten = 0\<rparr> \<and>
   \<not> exitCodeOf (state (runEngine wipeAll exampleRequest exampleInventory)) 0 \<and>
   selectable [Choice \<lparr>name = ''/dev/sda1 (Unknown, N/A) [INTERNAL] [SYSTEM]'', val = Some (JStr ''/dev/sda1''),
                        disabled = Some ''System volume (blocked)''\<rparr>] = []"
proof -
  have h1: "filter (\<lambda>d. devicePathOrMount d = targetPath exampleRequest) exampleInventory =
              [exampleInventory ! 1] \<and> isSystemVolume (exampleInventory ! 1)"
    by (simp add: exampleRequest_def exampleInventory_def)
  have h2: "getProp sda1 ''is_system'' = Inr (Some (JBool True)) \<and> truthy (Some (JBool True)) \<and>
            driveChoice exampleEnv sda1 =
              Inr \<lparr>name = ''/dev/sda1 (Unknown, N/A) [INTERNAL] [SYSTEM]'', val = Some (JStr ''/dev/sda1''),
                   disabled = Some ''System volume (blocked)''\<rparr>"
    by code_simp
  note inst = system_volume_refused [of exampleRequest exampleInventory "exampleInventory ! 1"
      wipeAll sda1 "Some (JBool True)" exampleEnv
      "\<lparr>name = ''/dev/sda1 (Unknown, N/A) [INTERNAL] [SYSTEM]'', val = Some (JStr ''/dev/sda1''),
        disabled = Some ''System volume (blocked)''\<rparr>" "[]"]
  from h1 inst have a:
    "runEngine wipeAll exampleRequest exampleInventory =
       \<lparr>state = Failed, events = [ErrorEvent SystemVolumeRefused], bytesWritten = 0\<rparr> \<and>
     \<not> exitCodeOf (state (runEngine wipeAll exampleRequest exampleInventory)) 0"
    by blast
  from h2 inst have b:
    "selectable [Choice \<lparr>name = ''/dev/sda1 (Unknown, N/A) [INTERNAL] [SYSTEM]'', val = Some (JStr ''/dev/sda1''),
                          disabled = Some ''System volume (blocked)''\<rparr>] = selectable []"
    by blast
  from a b show ?thesis by (simp add: exitCodeOf_def)
qed

subsection \<open>The engine's output, line by line\<close>

lemma asText_JStr: "asText e (Some (JStr s)) = Inr s"
  by (simp add: asText_def)

lemma prefixOf_raw: "prefixOf ''raw'' = LogPrefix"
  by (simp add: prefixOf_def inheritedKeys_def)

lemma processLine_lineEffect: "processLine e st l = Inr (lineEffect e st l)"
proof (cases "parse e l")
  case None
  then show ?thesis by (simp add: processLine_no_parse lineEffect_def logged_def)
next
  case (Some j)
  then show ?thesis
    by (cases j)
      (auto simp: processLine_def tryLine_def lineEffect_def member_def logged_def
        addLog_def asText_JStr prefixOf_raw split: sum.splits option.splits)
qed

lemma forEach_foldl:
  "(\<And>s x. f s x = Inr (g s x)) \<Longrightarrow> forEach f st xs = Inr (foldl g st xs)"
  by (induction xs arbitrary: st) simp_all

lemma processOutput_foldl:
  "processOutput e st data = Inr (foldl (lineEffect e) st (splitOn newline (trim e data)))"
  unfolding processOutput_def by (rule forEach_foldl) (rule processLine_lineEffect)

lemma onStdout_v1_empty: "trim e data = [] \<Longrightarrow> onStdout_v1 e data = []"
  by (simp add: onStdout_v1_def)

lemma onStdout_v1_no_parse:
  "trim e data \<noteq> [] \<Longrightarrow> parse e (trim e data) = None \<Longrightarrow>
   onStdout_v1 e data = [ConsoleLog (''[ENGINE] '' @ trim e data)]"
  by (simp add: onStdout_v1_def tryStdout_v1_def)

lemma onStdout_v1_null:
  "trim e data \<noteq> [] \<Longrightarrow> parse e (trim e data) = Some JNull \<Longrightarrow>
   onStdout_v1 e data = [ConsoleLog (''[ENGINE] '' @ trim e data)]"
  by (simp add: onStdout_v1_def tryStdout_v1_def)

lemma onStdout_v1_progress:
  "trim e data \<noteq> [] \<Longrightarrow> parse e (trim e data) = Some j \<Longrightarrow>
   getProp j ''type'' = Inr (Some (JStr ''progress'')) \<Longrightarrow>
   onStdout_v1 e data =
     (case progressBar e j of
        Inr t \<Rightarrow> [ConsoleLog t]
      | Inl _ \<Rightarrow> [ConsoleLog (''[ENGINE] '' @ trim e data)])"
  by (simp add: onStdout_v1_def tryStdout_v1_def split: sum.splits)

lemma onStdout_v1_status:
  "trim e data \<noteq> [] \<Longrightarrow> parse e (trim e data) = Some (JObj kvs) \<Longrightarrow>
   map_of kvs ''type'' = Some (JStr ''status'') \<Longrightarrow>
   onStdout_v1 e data =
     (case asText e (map_of kvs ''message'') of
        Inr m \<Rightarrow> [ConsoleLog (''[ENGINE] '' @ m)]
      | Inl _ \<Rightarrow> [ConsoleLog (''[ENGINE] '' @ trim e data)])"
  by (simp add: onStdout_v1_def tryStdout_v1_def split: sum.splits)

lemma onStdout_v1_error:
  "trim e data \<noteq> [] \<Longrightarrow> parse e (trim e data) = Some (JObj kvs) \<Longrightarrow>
   map_of kvs ''type'' = Some (JStr ''error'') \<Longrightarrow>
   onStdout_v1 e data =
     (case asText e (map_of kvs ''message'') of
        Inr m \<Rightarrow> [ConsoleError (''[ENGINE_ERROR] '' @ m)]
      | Inl _ \<Rightarrow> [ConsoleLog (''[ENGINE] '' @ trim e data)])"
  by (simp add: onStdout_v1_def tryStdout_v1_def split: sum.splits)

lemma onStdout_v1_other:
  "parse e (trim e data) = Some j \<Longrightarrow> getProp j ''type'' = Inr ty \<Longrightarrow>
   ty \<noteq> Some (JStr ''progress'') \<Longrightarrow> ty \<noteq> Some (JStr ''status'') \<Longrightarrow>
   ty \<noteq> Some (JStr ''error'') \<Longrightarrow>
   onStdout_v1 e data = []"
  by (simp add: onStdout_v1_def tryStdout_v1_def Let_def)

lemma onStdout_v1_at_most_one: "length (onStdout_v1 e data) \<le> 1"
  by (auto simp: onStdout_v1_def tryStdout_v1_def Let_def split: sum.splits option.splits)

lemma onStderr_v1_raw:
  "onStderr_v1 e data =
     (if trim e data = [] then [] else [ConsoleError (''[ENGINE_ERROR] '' @ trim e data)])"
  by (simp add: onStderr_v1_def)

lemma onStderr_v1_parse: "onStderr_v1 (e\<lparr>parse := p\<rparr>) data = onStderr_v1 e data"
  by (simp add: onStderr_v1_def)

text \<open>
  Claim C3, amended. \<^verbatim>\<open>processOutput\<close> of \<^verbatim>\<open>index.js\<close>, which listens on both stdout
  and stderr, treats the trimmed chunk as lines, one record each: what it leaves is what
  handling the lines one after the other leaves, each line as the specification words it
  (\<open>lineEffect\<close>), and it never throws. Each line is handled on its own: whatever a line
  holds, the lines after it are processed from the state it leaves. The log grows by
  exactly one entry for every line that is not a progress record. A line that does not
  parse is logged as it stands, under the prefix \<^verbatim>\<open>LOG\<close>; a record of type
  \<^verbatim>\<open>progress\<close> sets the current phase and leaves the log alone; a record of any other
  type appends one entry to the log, for a text message under the prefix of its type.

  The older revision does not work by lines. Its handler of stdout parses the trimmed
  chunk as one JSON text and prints at most one line for it: nothing for an empty chunk;
  the chunk itself behind \<^verbatim>\<open>[ENGINE]\<close> when it does not parse, when it is \<^verbatim>\<open>null\<close>, and
  when building the text throws; the progress line for a record of type \<^verbatim>\<open>progress\<close>;
  the message behind \<^verbatim>\<open>[ENGINE]\<close> for a record of type \<^verbatim>\<open>status\<close> and behind
  \<^verbatim>\<open>[ENGINE_ERROR]\<close>, on the error stream, for one of type \<^verbatim>\<open>error\<close>; nothing for any
  other type. Its handler of stderr parses nothing: it prints the trimmed chunk behind
  \<^verbatim>\<open>[ENGINE_ERROR]\<close>, whatever the JSON parser makes of it.
\<close>

theorem processOutput_line_by_line:
  "processOutput e st data =
     Inr (foldl (lineEffect e) st (splitOn newline (trim e data))) \<and>
   processLine e st l = Inr (lineEffect e st l) \<and>
   forEach (processLine e) st (l # ls) = forEach (processLine e) (lineEffect e st l) ls \<and>
   (\<exists>st'. processOutput e st data = Inr st' \<and>
          length (logMessages st') =
            length (logMessages st) +
            length (filter (\<lambda>l. \<not> isProgress e l) (splitOn newline (trim e data)))) \<and>
   (parse e l = None \<longrightarrow>
      processLine e st l = Inr (st\<lparr>logMessages := logMessages st @ [(LogPrefix, l)]\<rparr>)) \<and>
   (parse e l = Some j \<and> getProp j ''type'' = Inr (Some (JStr ''progress'')) \<longrightarrow>
      (\<exists>ph. getProp j ''phase'' = Inr ph \<and>
            processLine e st l = Inr (st\<lparr>currentPhase := ph\<rparr>))) \<and>
   (parse e l = Some j \<and> getProp j ''type'' \<noteq> Inr (Some (JStr ''progress'')) \<longrightarrow>
      (\<exists>p t. processLine e st l = Inr (st\<lparr>logMessages := logMessages st @ [(p, t)]\<rparr>))) \<and>
   (parse e l = Some (JObj kvs) \<and> map_of kvs ''type'' = Some (JStr k) \<and> k \<noteq> ''progress'' \<and>
    map_of kvs ''message'' = Some (JStr m) \<longrightarrow>
      processLine e st l = Inr (st\<lparr>logMessages := logMessages st @ [(prefixOf k, m)]\<rparr>)) \<and>
   (trim e data = [] \<longrightarrow> onStdout_v1 e data = []) \<and>
   (trim e data \<noteq> [] \<and> parse e (trim e data) = None \<longrightarrow>
      onStdout_v1 e data = [ConsoleLog (''[ENGINE] '' @ trim e data)]) \<and>
   (trim e data \<noteq> [] \<and> parse e (trim e data) = Some JNull \<longrightarrow>
      onStdout_v1 e data = [ConsoleLog (''[ENGINE] '' @ trim e data)]) \<and>
   (trim e data \<noteq> [] \<and> parse e (trim e data) = Some j \<and>
    getProp j ''type'' = Inr (Some (JStr ''progress'')) \<longrightarrow>
      onStdout_v1 e data =
        (case progressBar e j of
           Inr t \<Rightarrow> [ConsoleLog t]
         | Inl _ \<Rightarrow> [ConsoleLog (''[ENGINE] '' @ trim e data)])) \<and>
   (trim e data \<noteq> [] \<and> parse e (trim e data) = Some (JObj kvs) \<and>
    map_of kvs ''type'' = Some (JStr ''status'') \<longrightarrow>
      onStdout_v1 e data =
        (case asText e (map_of kvs ''message'') of
           Inr t \<Rightarrow> [ConsoleLog (''[ENGINE] '' @ t)]
         | Inl _ \<Rightarrow> [ConsoleLog (''[ENGINE] '' @ trim e data)])) \<and>
   (trim e data \<noteq> [] \<and> parse e (trim e data) = Some (JObj kvs) \<and>
    map_of kvs ''type'' = Some (JStr ''error'') \<longrightarrow>
      onStdout_v1 e data =
        (case asText e (map_of kvs ''message'') of
           Inr t \<Rightarrow> [ConsoleError (''[ENGINE_ERROR] '' @ t)]
         | Inl _ \<Rightarrow> [ConsoleLog (''[ENGINE] '' @ trim e data)])) \<and>
   (parse e (trim e data) = Some j \<and> getProp j ''type'' = Inr ty \<and>
    ty \<noteq> Some (JStr ''progress'') \<and> ty \<noteq> Some (JStr ''status'') \<and>
    ty \<noteq> Some (JStr ''error'') \<longrightarrow>
      onStdout_v1 e data = []) \<and>
   length (onStdout_v1 e data) \<le> 1 \<and>
   onStderr_v1 e data =
     (if trim e data = [] then [] else [ConsoleError (''[ENGINE_ERROR] '' @ trim e data)]) \<and>
   onStderr_v1 (e\<lparr>parse := q\<rparr>) data = onStderr_v1 e data"
proof -
  note c1 = processOutput_foldl [of e st data]
  note c2 = processLine_lineEffect [of e st l]
  from c2 have c3: "forEach (processLine e) st (l # ls) =
      forEach (processLine e) (lineEffect e st l) ls"
    by simp
  obtain st' where st': "processOutput e st data = Inr st'"
    using c1 by blast
  then have "length (logMessages st') =
      length (logMessages st) +
      length (filter (\<lambda>l. \<not> isProgress e l) (splitOn newline (trim e data)))"
    by (simp add: processOutput_def forEach_log_length)
  with st' have c4: "\<exists>st'. processOutput e st data = Inr st' \<and>
          length (logMessages st') =
            length (logMessages st) +
            length (filter (\<lambda>l. \<not> isProgress e l) (splitOn newline (trim e data)))"
    by blast
  have c5: "parse e l = None \<longrightarrow>
      processLine e st l = Inr (st\<lparr>logMessages := logMessages st @ [(LogPrefix, l)]\<rparr>)"
    using processLine_no_parse [of e l st] by blast
  have c6: "parse e l = Some j \<and> getProp j ''type'' = Inr (Some (JStr ''progress'')) \<longrightarrow>
      (\<exists>ph. getProp j ''phase'' = Inr ph \<and>
            processLine e st l = Inr (st\<lparr>currentPhase := ph\<rparr>))"
    using processLine_progress [of e l j st] by blast
  have c7: "parse e l = Some j \<and> getProp j ''type'' \<noteq> Inr (Some (JStr ''progress'')) \<longrightarrow>
      (\<exists>p t. processLine e st l = Inr (st\<lparr>logMessages := logMessages st @ [(p, t)]\<rparr>))"
    using processLine_other [of e l j st] by blast
  have c8: "parse e l = Some (JObj kvs) \<and> map_of kvs ''type'' = Some (JStr k) \<and>
      k \<noteq> ''progress'' \<and> map_of kvs ''message'' = Some (JStr m) \<longrightarrow>
      processLine e st l = Inr (st\<lparr>logMessages := logMessages st @ [(prefixOf k, m)]\<rparr>)"
    using processLine_message [of e l kvs k m st] by blast
  have c9: "trim e data = [] \<longrightarrow> onStdout_v1 e data = []"
    using onStdout_v1_empty [of e data] by blast
  have c10: "trim e data \<noteq> [] \<and> parse e (trim e data) = None \<longrightarrow>
      onStdout_v1 e data = [ConsoleLog (''[ENGINE] '' @ trim e data)]"
    using onStdout_v1_no_parse [of e data] by blast
  have c11: "trim e data \<noteq> [] \<and> parse e (trim e data) = Some JNull \<longrightarrow>
      onStdout_v1 e data = [ConsoleLog (''[ENGINE] '' @ trim e data)]"
    using onStdout_v1_null [of e data] by blast
  have c12: "trim e data \<noteq> [] \<and> parse e (trim e data) = Some j \<and>
      getProp j ''type'' = Inr (Some (JStr ''progress'')) \<longrightarrow>
      onStdout_v1 e data =
        (case progressBar e j of
           Inr t \<Rightarrow> [ConsoleLog t]
         | Inl _ \<Rightarrow> [ConsoleLog (''[ENGINE] '' @ trim e data)])"
    using onStdout_v1_progress [of e data j] by blast
  have c13: "trim e data \<noteq> [] \<and> parse e (trim e data) = Some (JObj kvs) \<and>
      map_of kvs ''type'' = Some (JStr ''status'') \<longrightarrow>
      onStdout_v1 e data =
        (case asText e (map_of kvs ''message'') of
           Inr t \<Rightarrow> [ConsoleLog (''[ENGINE] '' @ t)]
         | Inl _ \<Rightarrow> [ConsoleLog (''[ENGINE] '' @ trim e data)])"
    using onStdout_v1_status [of e data kvs] by blast
  have c14: "trim e data \<noteq> [] \<and> parse e (trim e data) = Some (JObj kvs) \<and>
      map_of kvs ''type'' = Some (JStr ''error'') \<longrightarrow>
      onStdout_v1 e data =
        (case asText e (map_of kvs ''message'') of
           Inr t \<Rightarrow> [ConsoleError (''[ENGINE_ERROR] '' @ t)]
         | Inl _ \<Rightarrow> [ConsoleLog (''[ENGINE] '' @ trim e data)])"
    using onStdout_v1_error [of e data kvs] by blast
  have c15: "parse e (trim e data) = Some j \<and> getProp j ''type'' = Inr ty \<and>
      ty \<noteq> Some (JStr ''progress'') \<and> ty \<noteq> Some (JStr ''status'') \<and>
      ty \<noteq> Some (JStr ''error'') \<longrightarrow>
      onStdout_v1 e data = []"
    using onStdout_v1_other [of e data j ty] by blast
  note c16 = onStdout_v1_at_most_one [of e data]
  note c17 = onStderr_v1_raw [of e data]
  note c18 = onStderr_v1_parse [where e = e and p = q and data = data]
  from c1 c2 c3 c4 c5 c6 c7 c8 c9 c10 c11 c12 c13 c14 c15 c16 c17 c18
  show ?thesis by (intro conjI) assumption+
qed

theorem processOutput_line_by_line_witness:
  "processOutput exampleEnv exampleUi exampleChunk =
     Inr \<lparr>currentPhase = Some (JStr ''Pass 1/3''),
          logMessages = [(LogPrefix, ''mkfs.ext4: done''), (InfoPrefix, ''pass started'')]\<rparr> \<and>
   processLine exampleEnv exampleUi ''mkfs.ext4: done'' =
     Inr (exampleUi\<lparr>logMessages := logMessages exampleUi @ [(LogPrefix, ''mkfs.ext4: done'')]\<rparr>) \<and>
   (\<exists>ph. getProp (JObj [(''type'', JStr ''progress''), (''phase'', JStr ''Pass 1/3'')]) ''phase'' = Inr ph \<and>
         processLine exampleEnv exampleUi progressLine = Inr (exampleUi\<lparr>currentPhase := ph\<rparr>)) \<and>
   processLine exampleEnv exampleUi statusLine =
     Inr (exampleUi\<lparr>logMessages := logMessages exampleUi @ [(InfoPrefix, ''pass started'')]\<rparr>) \<and>
   (\<exists>p t. processLine exampleEnv exampleUi statusLine =
       Inr (exampleUi\<lparr>logMessages := logMessages exampleUi @ [(p, t)]\<rparr>)) \<and>
   onStdout_v1 exampleEnv [newline] = [] \<and>
   onStdout_v1 exampleEnv ''mkfs.ext4: done'' = [ConsoleLog ''[ENGINE] mkfs.ext4: done''] \<and>
   onStdout_v1 exampleEnv ''null'' = [ConsoleLog ''[ENGINE] null''] \<and>
   onStdout_v1 exampleEnv progressLine =
     [ConsoleLog ''[Pass 1/3]  undefined% (undefined, ETA: undefined)''] \<and>
   onStdout_v1 exampleEnv statusLine = [ConsoleLog ''[ENGINE] pass started''] \<and>
   onStdout_v1 exampleEnv errorLine = [ConsoleError ''[ENGINE_ERROR] Permission denied''] \<and>
   onStdout_v1 exampleEnv drivesLine = []"
proof -
  let ?prog = "JObj [(''type'', JStr ''progress''), (''phase'', JStr ''Pass 1/3'')]"
  let ?stat = "[(''type'', JStr ''status''), (''message'', JStr ''pass started'')]"
  let ?err = "[(''type'', JStr ''error''), (''message'', JStr ''Permission denied'')]"
  let ?drv = "JObj [(''type'', JStr ''drives''), (''items'', JArr [sdb1, sda1])]"
  have chunk: "foldl (lineEffect exampleEnv) exampleUi
                 (splitOn newline (trim exampleEnv exampleChunk)) =
               \<lparr>currentPhase = Some (JStr ''Pass 1/3''),
                logMessages = [(LogPrefix, ''mkfs.ext4: done''), (InfoPrefix, ''pass started'')]\<rparr>"
    by code_simp
  have raw: "parse exampleEnv ''mkfs.ext4: done'' = None"
    by code_simp
  have prog: "parse exampleEnv progressLine = Some ?prog \<and>
              getProp ?prog ''type'' = Inr (Some (JStr ''progress''))"
    by code_simp
  have stat: "parse exampleEnv statusLine = Some (JObj ?stat) \<and>
              map_of ?stat ''type'' = Some (JStr ''status'') \<and> ''status'' \<noteq> ''progress'' \<and>
              map_of ?stat ''message'' = Some (JStr ''pass started'')"
    by code_simp
  have other: "parse exampleEnv statusLine = Some (JObj ?stat) \<and>
               getProp (JObj ?stat) ''type'' \<noteq> Inr (Some (JStr ''progress''))"
    by code_simp
  have pre: "prefixOf ''status'' = InfoPrefix"
    by (simp add: prefixOf_def)
  have v9: "trim exampleEnv [newline] = []"
    by code_simp
  have v10: "trim exampleEnv ''mkfs.ext4: done'' \<noteq> [] \<and>
             parse exampleEnv (trim exampleEnv ''mkfs.ext4: done'') = None"
    by code_simp
  have v11: "trim exampleEnv ''null'' \<noteq> [] \<and>
             parse exampleEnv (trim exampleEnv ''null'') = Some JNull"
    by code_simp
  have v12: "trim exampleEnv progressLine \<noteq> [] \<and>
             parse exampleEnv (trim exampleEnv progressLine) = Some ?prog \<and>
             getProp ?prog ''type'' = Inr (Some (JStr ''progress''))"
    by code_simp
  have v13: "trim exampleEnv statusLine \<noteq> [] \<and>
             parse exampleEnv (trim exampleEnv statusLine) = Some (JObj ?stat) \<and>
             map_of ?stat ''type'' = Some (JStr ''status'')"
    by code_simp
  have v14: "trim exampleEnv errorLine \<noteq> [] \<and>
             parse exampleEnv (trim exampleEnv errorLine) = Some (JObj ?err) \<and>
             map_of ?err ''type'' = Some (JStr ''error'')"
    by code_simp
  have v15: "parse exampleEnv (trim exampleEnv drivesLine) = Some ?drv \<and>
             getProp ?drv ''type'' = Inr (Some (JStr ''drives'')) \<and>
             Some (JStr ''drives'') \<noteq> Some (JStr ''progress'') \<and>
             Some (JStr ''drives'') \<noteq> Some (JStr ''status'') \<and>
             Some (JStr ''drives'') \<noteq> Some (JStr ''error'')"
    by code_simp
  have r10: "[ConsoleLog (''[ENGINE] '' @ trim exampleEnv ''mkfs.ext4: done'')] =
             [ConsoleLog ''[ENGINE] mkfs.ext4: done'']"
    by code_simp
  have r11: "[ConsoleLog (''[ENGINE] '' @ trim exampleEnv ''null'')] =
             [ConsoleLog ''[ENGINE] null'']"
    by code_simp
  have r12: "(case progressBar exampleEnv ?prog of
                Inr t \<Rightarrow> [ConsoleLog t]
              | Inl _ \<Rightarrow> [ConsoleLog (''[ENGINE] '' @ trim exampleEnv progressLine)]) =
             [ConsoleLog ''[Pass 1/3]  undefined% (undefined, ETA: undefined)'']"
    by code_simp
  have r13: "(case asText exampleEnv (map_of ?stat ''message'') of
                Inr t \<Rightarrow> [ConsoleLog (''[ENGINE] '' @ t)]
              | Inl _ \<Rightarrow> [ConsoleLog (''[ENGINE] '' @ trim exampleEnv statusLine)]) =
             [ConsoleLog ''[ENGINE] pass started'']"
    by code_simp
  have r14: "(case asText exampleEnv (map_of ?err ''message'') of
                Inr t \<Rightarrow> [ConsoleError (''[ENGINE_ERROR] '' @ t)]
              | Inl _ \<Rightarrow> [ConsoleLog (''[ENGINE] '' @ trim exampleEnv errorLine)]) =
             [ConsoleError ''[ENGINE_ERROR] Permission denied'']"
    by code_simp
  note t1 = processOutput_line_by_line [where e = exampleEnv and st = exampleUi
      and data = exampleChunk, THEN conjunct1]
  from t1 chunk have a0: "processOutput exampleEnv exampleUi exampleChunk =
     Inr \<lparr>currentPhase = Some (JStr ''Pass 1/3''),
          logMessages = [(LogPrefix, ''mkfs.ext4: done''), (InfoPrefix, ''pass started'')]\<rparr>"
    by (simp only:)
  from raw
    processOutput_line_by_line [where e = exampleEnv and st = exampleUi
      and l = "''mkfs.ext4: done''"]
  have a: "processLine exampleEnv exampleUi ''mkfs.ext4: done'' =
     Inr (exampleUi\<lparr>logMessages := logMessages exampleUi @ [(LogPrefix, ''mkfs.ext4: done'')]\<rparr>)"
    by blast
  from prog
    processOutput_line_by_line [where e = exampleEnv and st = exampleUi
      and l = progressLine and j = ?prog]
  have b: "\<exists>ph. getProp ?prog ''phase'' = Inr ph \<and>
         processLine exampleEnv exampleUi progressLine = Inr (exampleUi\<lparr>currentPhase := ph\<rparr>)"
    by blast
  from stat
    processOutput_line_by_line [where e = exampleEnv and st = exampleUi
      and l = statusLine and kvs = ?stat and k = "''status''" and m = "''pass started''"]
  have c: "processLine exampleEnv exampleUi statusLine =
     Inr (exampleUi\<lparr>logMessages := logMessages exampleUi @ [(prefixOf ''status'', ''pass started'')]\<rparr>)"
    by blast
  from other
    processOutput_line_by_line [where e = exampleEnv and st = exampleUi
      and l = statusLine and j = "JObj ?stat"]
  have d: "\<exists>p t. processLine exampleEnv exampleUi statusLine =
       Inr (exampleUi\<lparr>logMessages := logMessages exampleUi @ [(p, t)]\<rparr>)"
    by blast
  from c pre have c': "processLine exampleEnv exampleUi statusLine =
     Inr (exampleUi\<lparr>logMessages := logMessages exampleUi @ [(InfoPrefix, ''pass started'')]\<rparr>)"
    by simp
  note rest = conjunct2 [THEN conjunct2, THEN conjunct2, THEN conjunct2, THEN conjunct2,
      THEN conjunct2, THEN conjunct2, THEN conjunct2]
  note w9 = processOutput_line_by_line [where e = exampleEnv and data = "[newline]",
      THEN rest, THEN conjunct1, THEN mp, OF v9]
  note w10 = processOutput_line_by_line [where e = exampleEnv and data = "''mkfs.ext4: done''",
      THEN rest, THEN conjunct2, THEN conjunct1, THEN mp, OF v10]
  note w11 = processOutput_line_by_line [where e = exampleEnv and data = "''null''",
      THEN rest, THEN conjunct2, THEN conjunct2, THEN conjunct1, THEN mp, OF v11]
  note w12 = processOutput_line_by_line [where e = exampleEnv and data = progressLine
      and j = ?prog,
      THEN rest, THEN conjunct2, THEN conjunct2, THEN conjunct2, THEN conjunct1, THEN mp,
      OF v12]
  note w13 = processOutput_line_by_line [where e = exampleEnv and data = statusLine
      and kvs = ?stat,
      THEN rest, THEN conjunct2, THEN conjunct2, THEN conjunct2, THEN conjunct2,
      THEN conjunct1, THEN mp, OF v13]
  note w14 = processOutput_line_by_line [where e = exampleEnv and data = errorLine
      and kvs = ?err,
      THEN rest, THEN conjunct2, THEN conjunct2, THEN conjunct2, THEN conjunct2,
      THEN conjunct2, THEN conjunct1, THEN mp, OF v14]
  note w15 = processOutput_line_by_line [where e = exampleEnv and data = drivesLine
      and j = ?drv and ty = "Some (JStr ''drives'')",
      THEN rest, THEN conjunct2, THEN conjunct2, THEN conjunct2, THEN conjunct2,
      THEN conjunct2, THEN conjunct2, THEN conjunct1, THEN mp, OF v15]
  from w10 r10 have w10': "onStdout_v1 exampleEnv ''mkfs.ext4: done'' =
      [ConsoleLog ''[ENGINE] mkfs.ext4: done'']"
    by (simp only:)
  from w11 r11 have w11': "onStdout_v1 exampleEnv ''null'' = [ConsoleLog ''[ENGINE] null'']"
    by (simp only:)
  from w12 r12 have w12': "onStdout_v1 exampleEnv progressLine =
      [ConsoleLog ''[Pass 1/3]  undefined% (undefined, ETA: undefined)'']"
    by (simp only:)
  from w13 r13 have w13': "onStdout_v1 exampleEnv statusLine =
      [ConsoleLog ''[ENGINE] pass started'']"
    by (simp only:)
  from w14 r14 have w14': "onStdout_v1 exampleEnv errorLine =
      [ConsoleError ''[ENGINE_ERROR] Permission denied'']"
    by (simp only:)
  from a0 a b c' d w9 w10' w11' w12' w13' w14' w15
  show ?thesis by (intro conjI) assumption+
qed

text \<open>
  Claim C3 as it was stated, with every chunk handled line by line in both revisions,
  fails on the older one. A chunk of two records, each of which the handler of stdout
  prints as a record when it comes alone, is printed as one raw text when they come
  together, and a record that arrives on stderr is printed unparsed; \<^verbatim>\<open>index.js\<close> takes
  the same chunk line by line.
\<close>

theorem chunk_parsed_whole_v1:
  "onStdout_v1 exampleEnv twoRecords =
     [ConsoleLog (''[ENGINE] '' @ statusLine @ [newline] @ progressLine)] \<and>
   onStdout_v1 exampleEnv statusLine = [ConsoleLog ''[ENGINE] pass started''] \<and>
   onStdout_v1 exampleEnv progressLine =
     [ConsoleLog ''[Pass 1/3]  undefined% (undefined, ETA: undefined)''] \<and>
   onStdout_v1 exampleEnv twoRecords \<noteq>
     onStdout_v1 exampleEnv statusLine @ onStdout_v1 exampleEnv progressLine \<and>
   onStderr_v1 exampleEnv (statusLine @ [newline]) =
     [ConsoleError (''[ENGINE_ERROR] '' @ statusLine)] \<and>
   processOutput exampleEnv exampleUi twoRecords =
     Inr \<lparr>currentPhase = Some (JStr ''Pass 1/3''),
          logMessages = [(InfoPrefix, ''pass started'')]\<rparr>"
  by code_simp

subsection \<open>Drive enumeration never raises\<close>

lemma primary_nonempty: "primary e r = Inr ds \<Longrightarrow> ds \<noteq> []"
  by (auto simp: primary_def split: exec_result.splits option.splits sum.splits json.splits
      if_splits)

lemma find_SomeD: "find P xs = Some x \<Longrightarrow> x \<in> set xs \<and> P x"
  by (induction xs) (auto split: if_splits)

lemma primary_drives_line:
  assumes "primary e (Stdout out) = Inr ds"
  shows "\<exists>l \<in> set (splitOn newline (trim e out)). isDrivesLine e l"
proof (cases "find (isDrivesLine e) (rev (splitOn newline (trim e out)))")
  case None
  with assms show ?thesis by (simp add: primary_def)
next
  case (Some l)
  from find_SomeD [OF this] show ?thesis by auto
qed

text \<open>
  Claim C5. \<^verbatim>\<open>getDrives\<close> always resolves, in both revisions. In \<^verbatim>\<open>index.js\<close> a listing
  that the primary enumeration produced is never empty and is the result; when the primary
  enumeration fails (the command fails, or anything in reading its output throws, an empty
  inventory included) the fallback command of the platform is run and its listing is the
  result, and when the fallback command fails too the result is the empty list. A listing of
  the primary enumeration comes from a line of the output that carries a
  \<^verbatim>\<open>drives\<close> record. The only commands run are the engine in listing mode, with
  \<^verbatim>\<open>--list-drives --dry-run\<close>, and the platform's listing tool. The older revision runs
  its one platform command, and resolves with the empty list when that fails.
\<close>

theorem getDrives_never_raises:
  "(\<exists>ds. snd (getDrives e) = Inr ds) \<and>
   (primary e (exec e (cmd e)) = Inr ds \<longrightarrow> ds \<noteq> [] \<and> getDrives e = ([cmd e], Inr ds)) \<and>
   (exec e (cmd e) = ExecError \<longrightarrow> primary e (exec e (cmd e)) = Inl (Error ''exec'')) \<and>
   (primary e (exec e (cmd e)) = Inl err \<and> exec e (fallbackCmd e) = Stdout out \<longrightarrow>
      getDrives e = ([cmd e, fallbackCmd e], Inr (fallbackDrives e out))) \<and>
   (primary e (exec e (cmd e)) = Inl err \<and> exec e (fallbackCmd e) = ExecError \<longrightarrow>
      getDrives e = ([cmd e, fallbackCmd e], Inr [])) \<and>
   (primary e (Stdout out) = Inr ds \<longrightarrow>
      (\<exists>l \<in> set (splitOn newline (trim e out)). isDrivesLine e l)) \<and>
   (\<exists>p. cmd e = p @ '' --list-drives --dry-run'') \<and>
   (\<exists>ds. getDrives_v1 e = ([command_v1 e], Inr ds)) \<and>
   (exec e (command_v1 e) = ExecError \<longrightarrow> getDrives_v1 e = ([command_v1 e], Inr []))"
proof -
  have a: "\<exists>ds. snd (getDrives e) = Inr ds"
    by (simp add: getDrives_def split: sum.splits exec_result.splits)
  have b: "primary e (exec e (cmd e)) = Inr ds \<longrightarrow>
             ds \<noteq> [] \<and> getDrives e = ([cmd e], Inr ds)"
    using primary_nonempty [of e "exec e (cmd e)" ds] by (simp add: getDrives_def)
  have c: "exec e (cmd e) = ExecError \<longrightarrow> primary e (exec e (cmd e)) = Inl (Error ''exec'')"
    by (simp add: primary_def)
  have d: "primary e (exec e (cmd e)) = Inl err \<and> exec e (fallbackCmd e) = Stdout out \<longrightarrow>
      getDrives e = ([cmd e, fallbackCmd e], Inr (fallbackDrives e out))"
    by (simp add: getDrives_def)
  have f: "primary e (exec e (cmd e)) = Inl err \<and> exec e (fallbackCmd e) = ExecError \<longrightarrow>
      getDrives e = ([cmd e, fallbackCmd e], Inr [])"
    by (simp add: getDrives_def)
  have g: "primary e (Stdout out) = Inr ds \<longrightarrow>
      (\<exists>l \<in> set (splitOn newline (trim e out)). isDrivesLine e l)"
    using primary_drives_line by blast
  have h: "\<exists>p. cmd e = p @ '' --list-drives --dry-run''"
    unfolding cmd_def by (metis append.assoc)
  have i: "\<exists>ds. getDrives_v1 e = ([command_v1 e], Inr ds)"
    by (simp add: getDrives_v1_def Let_def split: exec_result.splits)
  have j: "exec e (command_v1 e) = ExecError \<longrightarrow> getDrives_v1 e = ([command_v1 e], Inr [])"
    by (simp add: getDrives_v1_def)
  from a b c d f g h i j show ?thesis by blast
qed

theorem getDrives_never_raises_witness:
  "getDrives examplePlatform =
     ([cmd examplePlatform, fallbackCmd examplePlatform],
      Inr (fallbackDrives examplePlatform
             (''/dev/sdb1 vfat 16008609792 /media/usb'' @ [newline] @
              ''/dev/sda 500107862016'' @ [newline]))) \<and>
   getDrives (exampleEnv\<lparr>exec := \<lambda>c. ExecError\<rparr>) =
     ([cmd (exampleEnv\<lparr>exec := \<lambda>c. ExecError\<rparr>),
       fallbackCmd (exampleEnv\<lparr>exec := \<lambda>c. ExecError\<rparr>)], Inr []) \<and>
   getDrives_v1 (exampleEnv\<lparr>exec := \<lambda>c. ExecError\<rparr>) =
     ([command_v1 (exampleEnv\<lparr>exec := \<lambda>c. ExecError\<rparr>)], Inr []) \<and>
   (\<exists>l \<in> set [''scanning'', drivesLine]. isDrivesLine exampleEnv l) \<and>
   getDrives exampleEnv =
     ([cmd exampleEnv],
      Inr [\<lparr>name = ''/dev/sdb1 (Unknown, N/A) [INTERNAL]'', val = Some (JStr ''/dev/sdb1''),
            disabled = None\<rparr>,
           \<lparr>name = ''/dev/sda1 (Unknown, N/A) [INTERNAL] [SYSTEM]'',
            val = Some (JStr ''/dev/sda1''), disabled = Some ''System volume (blocked)''\<rparr>]) \<and>
   primary (exampleEnv\<lparr>exec := \<lambda>c. ExecError\<rparr>)
       (exec (exampleEnv\<lparr>exec := \<lambda>c. ExecError\<rparr>) (cmd (exampleEnv\<lparr>exec := \<lambda>c. ExecError\<rparr>))) =
     Inl (Error ''exec'')"
proof -
  let ?out = "''/dev/sdb1 vfat 16008609792 /media/usb'' @ [newline] @
              ''/dev/sda 500107862016'' @ [newline]"
  let ?dead = "exampleEnv\<lparr>exec := \<lambda>c. ExecError\<rparr>"
  let ?found = "[\<lparr>name = ''/dev/sdb1 (Unknown, N/A) [INTERNAL]'', val = Some (JStr ''/dev/sdb1''),
                  disabled = None\<rparr>,
                 \<lparr>name = ''/dev/sda1 (Unknown, N/A) [INTERNAL] [SYSTEM]'',
                  val = Some (JStr ''/dev/sda1''), disabled = Some ''System volume (blocked)''\<rparr>]"
  have h4: "primary exampleEnv (exec exampleEnv (cmd exampleEnv)) = Inr ?found"
    by code_simp
  have h5: "exec ?dead (cmd ?dead) = ExecError"
    by simp
  note d = getDrives_never_raises [where e = exampleEnv and ds = ?found, THEN conjunct2,
      THEN conjunct1, THEN mp, OF h4, THEN conjunct2]
  note f = getDrives_never_raises [where e = ?dead, THEN conjunct2, THEN conjunct2,
      THEN conjunct1, THEN mp, OF h5]
  have h1: "primary examplePlatform (exec examplePlatform (cmd examplePlatform)) =
              Inl (Error ''exec'') \<and>
            exec examplePlatform (fallbackCmd examplePlatform) = Stdout ?out"
    by code_simp
  have h2: "primary ?dead (exec ?dead (cmd ?dead)) = Inl (Error ''exec'') \<and>
            exec ?dead (fallbackCmd ?dead) = ExecError \<and>
            exec ?dead (command_v1 ?dead) = ExecError"
    by (simp add: primary_def)
  have h3: "primary exampleEnv (Stdout (''scanning'' @ [newline] @ drivesLine @ [newline])) =
              Inr [\<lparr>name = ''/dev/sdb1 (Unknown, N/A) [INTERNAL]'', val = Some (JStr ''/dev/sdb1''), disabled = None\<rparr>,
                   \<lparr>name = ''/dev/sda1 (Unknown, N/A) [INTERNAL] [SYSTEM]'', val = Some (JStr ''/dev/sda1''),
                    disabled = Some ''System volume (blocked)''\<rparr>] \<and>
            splitOn newline (trim exampleEnv (''scanning'' @ [newline] @ drivesLine @ [newline])) =
              [''scanning'', drivesLine]"
    by code_simp
  from h1 getDrives_never_raises [of examplePlatform _ "Error ''exec''" ?out]
  have a: "getDrives examplePlatform =
     ([cmd examplePlatform, fallbackCmd examplePlatform],
      Inr (fallbackDrives examplePlatform ?out))"
    by blast
  from h2 getDrives_never_raises [of ?dead _ "Error ''exec''"]
  have b: "getDrives ?dead = ([cmd ?dead, fallbackCmd ?dead], Inr []) \<and>
           getDrives_v1 ?dead = ([command_v1 ?dead], Inr [])"
    by blast
  from h3 getDrives_never_raises [of exampleEnv
      "[\<lparr>name = ''/dev/sdb1 (Unknown, N/A) [INTERNAL]'', val = Some (JStr ''/dev/sdb1''), disabled = None\<rparr>,
        \<lparr>name = ''/dev/sda1 (Unknown, N/A) [INTERNAL] [SYSTEM]'', val = Some (JStr ''/dev/sda1''),
         disabled = Some ''System volume (blocked)''\<rparr>]" _
      "''scanning'' @ [newline] @ drivesLine @ [newline]"]
  have c: "\<exists>l \<in> set [''scanning'', drivesLine]. isDrivesLine exampleEnv l"
    by metis
  from a b [THEN conjunct1] b [THEN conjunct2] c d f show ?thesis
    by (intro conjI) assumption+
qed

subsection \<open>The modes on offer\<close>

text \<open>
  Claim C6, amended. No revision offers all four modes. The mode prompt of \<^verbatim>\<open>index.js\<close>
  offers \<^verbatim>\<open>secure\<close>, \<^verbatim>\<open>paranoid\<close> and \<^verbatim>\<open>legacy-fast\<close> (and \<^verbatim>\<open>cancel\<close>), not
  \<^verbatim>\<open>quick\<close>; the prompt of the older revision offers \<^verbatim>\<open>quick\<close>, \<^verbatim>\<open>secure\<close> and
  \<^verbatim>\<open>paranoid\<close>, not \<^verbatim>\<open>legacy-fast\<close>. In each revision the engine is only ever started
  with one of the three modes of that revision, the one the operator picked, right after
  \<^verbatim>\<open>--mode\<close>; and each of the three can be picked and does reach the engine.
\<close>

theorem offered_modes:
  "set (selectable wipeModeChoices) = {''secure'', ''paranoid'', ''legacy-fast'', ''cancel''} \<and>
   (startWipeSequence e a = Spawned exe args \<longrightarrow>
      pickMode a \<in> {''secure'', ''paranoid'', ''legacy-fast''} \<and>
      take 2 (drop 3 args) = [''--mode'', pickMode a]) \<and>
   (m \<in> {''secure'', ''paranoid'', ''legacy-fast''} \<longrightarrow>
      (\<exists>e' a' exe' args'. startWipeSequence e' a' = Spawned exe' args' \<and> pickMode a' = m \<and>
          take 2 (drop 3 args') = [''--mode'', m])) \<and>
   set (selectable wipeModeChoices_v1) = {''quick'', ''secure'', ''paranoid'', ''cancel''} \<and>
   (startWipeSequence_v1 e b = Spawned exe args \<longrightarrow>
      pickMode_v1 b \<in> {''quick'', ''secure'', ''paranoid''} \<and>
      drop 3 args = [''--mode'', pickMode_v1 b]) \<and>
   (m \<in> {''quick'', ''secure'', ''paranoid''} \<longrightarrow>
      (\<exists>e' b' exe' args'. startWipeSequence_v1 e' b' = Spawned exe' args' \<and>
          pickMode_v1 b' = m \<and> drop 3 args' = [''--mode'', m]))"
proof -
  have a: "startWipeSequence e a = Spawned exe args \<longrightarrow>
      pickMode a \<in> {''secure'', ''paranoid'', ''legacy-fast''} \<and>
      take 2 (drop 3 args) = [''--mode'', pickMode a]"
  proof
    assume sp: "startWipeSequence e a = Spawned exe args"
    from startWipeSequence_Spawned [OF sp]
    have "pickMode a \<in> set (selectable wipeModeChoices)" "pickMode a \<noteq> ''cancel''"
      by blast+
    then have "pickMode a \<in> {''secure'', ''paranoid'', ''legacy-fast''}"
      unfolding selectable_wipeModeChoices by blast
    moreover from startWipeSequence_args [OF sp]
    have "take 2 (drop 3 args) = [''--mode'', pickMode a]" by auto
    ultimately show "pickMode a \<in> {''secure'', ''paranoid'', ''legacy-fast''} \<and>
      take 2 (drop 3 args) = [''--mode'', pickMode a]" by blast
  qed
  have b: "m \<in> {''secure'', ''paranoid'', ''legacy-fast''} \<longrightarrow>
      (\<exists>e' a' exe' args'. startWipeSequence e' a' = Spawned exe' args' \<and> pickMode a' = m \<and>
          take 2 (drop 3 args') = [''--mode'', m])"
  proof
    assume "m \<in> {''secure'', ''paranoid'', ''legacy-fast''}"
    then consider "m = ''secure''" | "m = ''paranoid''" | "m = ''legacy-fast''" by blast
    then have "\<exists>exe' args'.
        startWipeSequence exampleEnv (exampleAnswers\<lparr>pickMode := m\<rparr>) = Spawned exe' args' \<and>
        take 2 (drop 3 args') = [''--mode'', m]"
    proof cases
      case 1
      have "startWipeSequence exampleEnv (exampleAnswers\<lparr>pickMode := ''secure''\<rparr>) =
        Spawned ''python3'' [''/opt/scrubber/main.py'', ''--path'', ''/dev/sdb1'', ''--mode'',
          ''secure'', ''--filesystem'', ''ext4'']"
        by code_simp
      with 1 show ?thesis by simp
    next
      case 2
      have "startWipeSequence exampleEnv (exampleAnswers\<lparr>pickMode := ''paranoid''\<rparr>) =
        Spawned ''python3'' [''/opt/scrubber/main.py'', ''--path'', ''/dev/sdb1'', ''--mode'',
          ''paranoid'', ''--filesystem'', ''ext4'', ''--passes'', ''3'']"
        by code_simp
      with 2 show ?thesis by simp
    next
      case 3
      have "startWipeSequence exampleEnv (exampleAnswers\<lparr>pickMode := ''legacy-fast''\<rparr>) =
        Spawned ''python3'' [''/opt/scrubber/main.py'', ''--path'', ''/dev/sdb1'', ''--mode'',
          ''legacy-fast'', ''--filesystem'', ''ext4'']"
        by code_simp
      with 3 show ?thesis by simp
    qed
    then obtain exe' args' where
      "startWipeSequence exampleEnv (exampleAnswers\<lparr>pickMode := m\<rparr>) = Spawned exe' args'"
      "take 2 (drop 3 args') = [''--mode'', m]" by blast
    moreover have "pickMode (exampleAnswers\<lparr>pickMode := m\<rparr>) = m" by simp
    ultimately show "\<exists>e' a' exe' args'. startWipeSequence e' a' = Spawned exe' args' \<and>
        pickMode a' = m \<and> take 2 (drop 3 args') = [''--mode'', m]" by blast
  qed
  have c: "startWipeSequence_v1 e b = Spawned exe args \<longrightarrow>
      pickMode_v1 b \<in> {''quick'', ''secure'', ''paranoid''} \<and>
      drop 3 args = [''--mode'', pickMode_v1 b]"
  proof
    assume sp: "startWipeSequence_v1 e b = Spawned exe args"
    from startWipeSequence_v1_Spawned [OF sp]
    have m: "pickMode_v1 b \<in> set (selectable wipeModeChoices_v1)"
      and n: "pickMode_v1 b \<noteq> ''cancel''"
      and r: "args = [mainPy e, ''--path'', pathResolve e (pickTarget_v1 b), ''--mode'', pickMode_v1 b]"
      by blast+
    from m n have "pickMode_v1 b \<in> {''quick'', ''secure'', ''paranoid''}"
      unfolding selectable_wipeModeChoices_v1 by blast
    moreover from r have "drop 3 args = [''--mode'', pickMode_v1 b]" by simp
    ultimately show "pickMode_v1 b \<in> {''quick'', ''secure'', ''paranoid''} \<and>
      drop 3 args = [''--mode'', pickMode_v1 b]" by blast
  qed
  have d: "m \<in> {''quick'', ''secure'', ''paranoid''} \<longrightarrow>
      (\<exists>e' b' exe' args'. startWipeSequence_v1 e' b' = Spawned exe' args' \<and>
          pickMode_v1 b' = m \<and> drop 3 args' = [''--mode'', m])"
  proof
    assume "m \<in> {''quick'', ''secure'', ''paranoid''}"
    then consider "m = ''quick''" | "m = ''secure''" | "m = ''paranoid''" by blast
    then have "\<exists>exe' args'.
        startWipeSequence_v1 examplePlatform_v1 (exampleAnswers_v1\<lparr>pickMode_v1 := m\<rparr>) =
          Spawned exe' args' \<and>
        drop 3 args' = [''--mode'', m]"
    proof cases
      case 1
      have "startWipeSequence_v1 examplePlatform_v1 (exampleAnswers_v1\<lparr>pickMode_v1 := ''quick''\<rparr>) =
        Spawned ''python3'' [''/opt/scrubber/main.py'', ''--path'', ''/media/usb'', ''--mode'',
          ''quick'']"
        by code_simp
      with 1 show ?thesis by simp
    next
      case 2
      have "startWipeSequence_v1 examplePlatform_v1 (exampleAnswers_v1\<lparr>pickMode_v1 := ''secure''\<rparr>) =
        Spawned ''python3'' [''/opt/scrubber/main.py'', ''--path'', ''/media/usb'', ''--mode'',
          ''secure'']"
        by code_simp
      with 2 show ?thesis by simp
    next
      case 3
      have "startWipeSequence_v1 examplePlatform_v1 (exampleAnswers_v1\<lparr>pickMode_v1 := ''paranoid''\<rparr>) =
        Spawned ''python3'' [''/opt/scrubber/main.py'', ''--path'', ''/media/usb'', ''--mode'',
          ''paranoid'']"
        by code_simp
      with 3 show ?thesis by simp
    qed
    then obtain exe' args' where
      "startWipeSequence_v1 examplePlatform_v1 (exampleAnswers_v1\<lparr>pickMode_v1 := m\<rparr>) =
         Spawned exe' args'"
      "drop 3 args' = [''--mode'', m]" by blast
    moreover have "pickMode_v1 (exampleAnswers_v1\<lparr>pickMode_v1 := m\<rparr>) = m" by simp
    ultimately show "\<exists>e' b' exe' args'. startWipeSequence_v1 e' b' = Spawned exe' args' \<and>
        pickMode_v1 b' = m \<and> drop 3 args' = [''--mode'', m]" by blast
  qed
  from a b c d selectable_wipeModeChoices selectable_wipeModeChoices_v1
  show ?thesis by blast
qed

theorem offered_modes_witness:
  "pickMode exampleAnswers \<in> {''secure'', ''paranoid'', ''legacy-fast''} \<and>
   take 2 (drop 3 [''/opt/scrubber/main.py'', ''--path'', ''/dev/sdb1'', ''--mode'', ''paranoid'',
        ''--filesystem'', ''ext4'', ''--passes'', ''3'']) = [''--mode'', pickMode exampleAnswers] \<and>
   pickMode_v1 exampleAnswers_v1 \<in> {''quick'', ''secure'', ''paranoid''} \<and>
   (\<exists>e' a' exe' args'. startWipeSequence e' a' = Spawned exe' args' \<and>
       pickMode a' = ''legacy-fast'' \<and> take 2 (drop 3 args') = [''--mode'', ''legacy-fast'']) \<and>
   (\<exists>e' b' exe' args'. startWipeSequence_v1 e' b' = Spawned exe' args' \<and>
       pickMode_v1 b' = ''quick'' \<and> drop 3 args' = [''--mode'', ''quick''])"
proof -
  have m1: "''legacy-fast'' \<in> {''secure'', ''paranoid'', ''legacy-fast''}" by simp
  have m2: "''quick'' \<in> {''quick'', ''secure'', ''paranoid''}" by simp
  note a = offered_modes [where e = exampleEnv and a = exampleAnswers, THEN conjunct2,
      THEN conjunct1, THEN mp, OF example_spawn]
  note b = offered_modes [where e = examplePlatform_v1 and b = exampleAnswers_v1,
      THEN conjunct2, THEN conjunct2, THEN conjunct2, THEN conjunct2, THEN conjunct1, THEN mp,
      OF example_spawn_v1, THEN conjunct1]
  note c = offered_modes [where m = "''legacy-fast''", THEN conjunct2, THEN conjunct2,
      THEN conjunct1, THEN mp, OF m1]
  note d = offered_modes [where m = "''quick''", THEN conjunct2, THEN conjunct2,
      THEN conjunct2, THEN conjunct2, THEN conjunct2, THEN mp, OF m2]
  show ?thesis
    using a [THEN conjunct1] a [THEN conjunct2] b c d by (intro conjI) assumption+
qed

text \<open>
  Claim C6 as it was stated fails for \<^verbatim>\<open>quick\<close> in \<^verbatim>\<open>index.js\<close>: the mode prompt has
  no such entry, so no answer of the operator selects it. Likewise \<^verbatim>\<open>legacy-fast\<close> is
  no entry of the older revision's prompt.
\<close>

theorem quick_not_offered:
  "''quick'' \<notin> set (selectable wipeModeChoices) \<and>
   startWipeSequence exampleEnv (exampleAnswers\<lparr>pickMode := ''quick''\<rparr>) = NoAnswer \<and>
   ''legacy-fast'' \<notin> set (selectable wipeModeChoices_v1) \<and>
   startWipeSequence_v1 examplePlatform_v1 (exampleAnswers_v1\<lparr>pickMode_v1 := ''legacy-fast''\<rparr>) =
     NoAnswer"
  by code_simp

subsection \<open>The passes\<close>

text \<open>
  Claim C7. In \<^verbatim>\<open>index.js\<close> the passes are asked for in paranoid mode only: in any other
  mode the answer to that prompt has no influence on the run. The prompt accepts exactly the
  integers from 1 to 10, and an empty answer gives the default 3. Whenever the engine is
  started, what follows the seven fixed arguments is \<^verbatim>\<open>--passes n\<close> in paranoid mode, for
  the accepted integer \<open>n\<close> between 1 and 10 (3 for the empty answer), and nothing at all in
  every other mode.
\<close>

theorem passes_only_for_paranoid:
  "(startWipeSequence e a = Spawned exe args \<longrightarrow>
      (if pickMode a = ''paranoid''
       then \<exists>n::int. 1 \<le> n \<and> n \<le> 10 \<and>
              (case typePasses a of None \<Rightarrow> n = 3 | Some v \<Rightarrow> v = of_int n) \<and>
              drop 7 args = [''--passes'', showInt n]
       else drop 7 args = [])) \<and>
   (pickMode a \<noteq> ''paranoid'' \<longrightarrow>
      startWipeSequence e (a\<lparr>typePasses := x\<rparr>) = startWipeSequence e a) \<and>
   validatePasses v = (\<exists>n::int. v = of_int n \<and> 1 \<le> n \<and> n \<le> 10) \<and>
   promptNumber 3 validatePasses None = Some 3"
proof -
  have a: "startWipeSequence e a = Spawned exe args \<longrightarrow>
      (if pickMode a = ''paranoid''
       then \<exists>n::int. 1 \<le> n \<and> n \<le> 10 \<and>
              (case typePasses a of None \<Rightarrow> n = 3 | Some v \<Rightarrow> v = of_int n) \<and>
              drop 7 args = [''--passes'', showInt n]
       else drop 7 args = [])"
  proof
    assume sp: "startWipeSequence e a = Spawned exe args"
    from startWipeSequence_args [OF sp] obtain t p where
      p: "askPasses (pickMode a) (typePasses a) = Some p" and
      args: "args = [mainPy e, ''--path'', t, ''--mode'', pickMode a,
                     ''--filesystem'', pickFs a] @ p"
      by blast
    from args have "drop 7 args = p" by simp
    with askPasses_Some [OF p] show "if pickMode a = ''paranoid''
       then \<exists>n::int. 1 \<le> n \<and> n \<le> 10 \<and>
              (case typePasses a of None \<Rightarrow> n = 3 | Some v \<Rightarrow> v = of_int n) \<and>
              drop 7 args = [''--passes'', showInt n]
       else drop 7 args = []"
      by (simp split: if_splits)
  qed
  have b: "pickMode a \<noteq> ''paranoid'' \<longrightarrow>
      startWipeSequence e (a\<lparr>typePasses := x\<rparr>) = startWipeSequence e a"
    by (auto simp: startWipeSequence_def askPasses_def promptList_def
        split: sum.splits option.splits)
  have c: "promptNumber 3 validatePasses None = Some 3"
    by (simp add: promptNumber_def validatePasses_def)
  from a b c validatePasses_iff [of v] show ?thesis by blast
qed

theorem passes_only_for_paranoid_witness:
  "(\<exists>n::int. 1 \<le> n \<and> n \<le> 10 \<and> n = 3 \<and>
      drop 7 [''/opt/scrubber/main.py'', ''--path'', ''/dev/sdb1'', ''--mode'', ''paranoid'',
              ''--filesystem'', ''ext4'', ''--passes'', ''3''] = [''--passes'', showInt n]) \<and>
   startWipeSequence exampleEnv (exampleAnswers\<lparr>pickMode := ''secure'', typePasses := Some 77\<rparr>) =
     startWipeSequence exampleEnv (exampleAnswers\<lparr>pickMode := ''secure''\<rparr>)"
proof -
  have m: "pickMode exampleAnswers = ''paranoid''" and t: "typePasses exampleAnswers = None"
    by (simp_all add: exampleAnswers_def)
  have s: "pickMode (exampleAnswers\<lparr>pickMode := ''secure''\<rparr>) \<noteq> ''paranoid''"
    by simp
  note a = passes_only_for_paranoid [where e = exampleEnv and a = exampleAnswers,
      THEN conjunct1, THEN mp, OF example_spawn]
  note b = passes_only_for_paranoid [where e = exampleEnv and
      a = "exampleAnswers\<lparr>pickMode := ''secure''\<rparr>" and x = "Some 77",
      THEN conjunct2, THEN conjunct1, THEN mp, OF s]
  from a m t have "\<exists>n::int. 1 \<le> n \<and> n \<le> 10 \<and> n = 3 \<and>
      drop 7 [''/opt/scrubber/main.py'', ''--path'', ''/dev/sdb1'', ''--mode'', ''paranoid'',
              ''--filesystem'', ''ext4'', ''--passes'', ''3''] = [''--passes'', showInt n]"
    by simp
  with b show ?thesis by simp
qed

subsection \<open>The filesystem\<close>

text \<open>
  Claim C8. In \<^verbatim>\<open>index.js\<close>, whenever the engine is started, in whatever mode, the
  operator has picked one of the filesystems the platform's list offers (NTFS or exFAT on
  Windows; ext4, exfat or vfat elsewhere; not \<^verbatim>\<open>cancel\<close>), and that value follows
  \<^verbatim>\<open>--filesystem\<close> in the arguments.
\<close>

theorem filesystem_always_passed:
  "startWipeSequence e a = Spawned exe args \<longrightarrow>
     pickFs a \<in> set (selectable (fsChoices e)) \<and>
     pickFs a \<in> (if isWindows e then {''NTFS'', ''exFAT''} else {''ext4'', ''exfat'', ''vfat''}) \<and>
     pickFs a \<noteq> ''cancel'' \<and>
     take 2 (drop 5 args) = [''--filesystem'', pickFs a]"
proof
  assume sp: "startWipeSequence e a = Spawned exe args"
  from startWipeSequence_Spawned [OF sp]
  have m: "pickFs a \<in> set (selectable (fsChoices e @ [Separator, plain ''Cancel'' ''cancel'']))"
    and n: "pickFs a \<noteq> ''cancel''"
    by blast+
  from m n have k: "pickFs a \<in> set (selectable (fsChoices e))"
    using selectable_fsChoices [of e] by auto
  from startWipeSequence_args [OF sp]
  have "take 2 (drop 5 args) = [''--filesystem'', pickFs a]" by auto
  with k n selectable_fsChoices [of e]
  show "pickFs a \<in> set (selectable (fsChoices e)) \<and>
     pickFs a \<in> (if isWindows e then {''NTFS'', ''exFAT''} else {''ext4'', ''exfat'', ''vfat''}) \<and>
     pickFs a \<noteq> ''cancel'' \<and>
     take 2 (drop 5 args) = [''--filesystem'', pickFs a]"
    by simp
qed

theorem filesystem_always_passed_witness:
  "pickFs exampleAnswers \<in> set (selectable (fsChoices exampleEnv)) \<and>
   pickFs exampleAnswers \<noteq> ''cancel'' \<and>
   take 2 (drop 5 [''/opt/scrubber/main.py'', ''--path'', ''/dev/sdb1'', ''--mode'', ''paranoid'',
                   ''--filesystem'', ''ext4'', ''--passes'', ''3'']) =
     [''--filesystem'', pickFs exampleAnswers]"
proof -
  note a = filesystem_always_passed [where e = exampleEnv and a = exampleAnswers, THEN mp,
      OF example_spawn]
  show ?thesis
    using a [THEN conjunct1] a [THEN conjunct2, THEN conjunct2, THEN conjunct1]
      a [THEN conjunct2, THEN conjunct2, THEN conjunct2]
    by (intro conjI) assumption+
qed

subsection \<open>The typed confirmation\<close>

lemma startWipeSequence_reaches_confirmation:
  assumes "snd (getDrives e) = Inr drives" and "drives \<noteq> []"
    and "pickTarget a \<in> set (selectable (map Choice drives @
                                 [Separator, plain ''Cancel'' (Some (JStr ''cancel''))]))"
    and "pickTarget a \<noteq> Some (JStr ''cancel'')"
    and "pickMode a \<in> set (selectable wipeModeChoices)" and "pickMode a \<noteq> ''cancel''"
    and "pickFs a \<in> set (selectable (fsChoices e @ [Separator, plain ''Cancel'' ''cancel'']))"
    and "pickFs a \<noteq> ''cancel''"
    and "askPasses (pickMode a) (typePasses a) = Some p"
  shows "startWipeSequence e a =
           confirmAndStart e (pickTarget a) (pickMode a) (pickFs a) p (typeConfirmation a)"
  using assms by (simp add: startWipeSequence_def promptList_def)

lemma confirmAndStart_mismatch:
  "toLowerCase e (trim e (pathNormalize e c)) \<noteq> toLowerCase e (trim e (pathNormalize e t)) \<Longrightarrow>
   confirmAndStart e (Some (JStr t)) m f p c = MainMenu ConfirmationMismatch"
  by (simp add: confirmAndStart_def Let_def)

lemma startWipeSequence_mismatch:
  assumes "pickTarget a = Some (JStr t)"
    and "toLowerCase e (trim e (pathNormalize e (typeConfirmation a))) \<noteq>
         toLowerCase e (trim e (pathNormalize e t))"
  shows "startWipeSequence e a \<in>
           {MainMenu ConfirmationMismatch, MainMenu OperatorCancelled, MainMenu NoDrivesFound,
            NoAnswer}"
  using assms
  by (auto simp: startWipeSequence_def promptList_def confirmAndStart_mismatch getDrives_def
      split: sum.splits option.splits exec_result.splits)

lemma startWipeSequence_v1_mismatch:
  assumes "toLowerCase e (dropBackslash (pathNormalize e (typeConfirmation_v1 b))) \<noteq>
           toLowerCase e (dropBackslash (pathNormalize e (pathResolve e (pickTarget_v1 b))))"
  shows "startWipeSequence_v1 e b \<in>
           {MainMenu ConfirmationMismatch, MainMenu OperatorCancelled, MainMenu NoDrivesFound,
            NoAnswer}"
  using assms
  by (auto simp: startWipeSequence_v1_def promptList_def confirmAndStart_v1_def getDrives_v1_def
      Let_def split: sum.splits option.splits exec_result.splits)

text \<open>
  Claim C9. The engine is started only when the confirmation the operator typed, after
  \<^verbatim>\<open>path.normalize\<close> and with letter case ignored, equals the selected target path treated
  the same way (\<^verbatim>\<open>index.js\<close> also trims both; the older revision resolves the target and
  drops one closing backslash from both), and the path passed to the engine is that target.
  When the two differ, no engine is started and nothing is thrown: the run ends back at the
  main menu (with the mismatch notice once the prompts before it were answered).
  \<open>NoAnswer\<close> stands for answers the prompts cannot return.
\<close>

theorem spawn_only_on_matching_confirmation:
  "(startWipeSequence e a = Spawned exe args \<longrightarrow>
      (\<exists>t. pickTarget a = Some (JStr t) \<and> take 2 (drop 1 args) = [''--path'', t] \<and>
           toLowerCase e (trim e (pathNormalize e (typeConfirmation a))) =
             toLowerCase e (trim e (pathNormalize e t)))) \<and>
   (pickTarget a = Some (JStr t) \<and>
    toLowerCase e (trim e (pathNormalize e (typeConfirmation a))) \<noteq> toLowerCase e (trim e (pathNormalize e t)) \<longrightarrow>
      startWipeSequence e a \<in>
        {MainMenu ConfirmationMismatch, MainMenu OperatorCancelled, MainMenu NoDrivesFound,
         NoAnswer}) \<and>
   (toLowerCase e (trim e (pathNormalize e c)) \<noteq> toLowerCase e (trim e (pathNormalize e t)) \<longrightarrow>
      confirmAndStart e (Some (JStr t)) m f p c = MainMenu ConfirmationMismatch) \<and>
   (startWipeSequence_v1 e b = Spawned exe args \<longrightarrow>
      take 2 (drop 1 args) = [''--path'', pathResolve e (pickTarget_v1 b)] \<and>
      toLowerCase e (dropBackslash (pathNormalize e (typeConfirmation_v1 b))) =
        toLowerCase e (dropBackslash (pathNormalize e (pathResolve e (pickTarget_v1 b))))) \<and>
   (toLowerCase e (dropBackslash (pathNormalize e (typeConfirmation_v1 b))) \<noteq>
      toLowerCase e (dropBackslash (pathNormalize e (pathResolve e (pickTarget_v1 b)))) \<longrightarrow>
      startWipeSequence_v1 e b \<in>
        {MainMenu ConfirmationMismatch, MainMenu OperatorCancelled, MainMenu NoDrivesFound,
         NoAnswer})"
proof -
  have a: "startWipeSequence e a = Spawned exe args \<longrightarrow>
      (\<exists>t. pickTarget a = Some (JStr t) \<and> take 2 (drop 1 args) = [''--path'', t] \<and>
           toLowerCase e (trim e (pathNormalize e (typeConfirmation a))) =
             toLowerCase e (trim e (pathNormalize e t)))"
  proof
    assume sp: "startWipeSequence e a = Spawned exe args"
    from startWipeSequence_Spawned [OF sp] obtain p where
      "confirmAndStart e (pickTarget a) (pickMode a) (pickFs a) p (typeConfirmation a) =
         Spawned exe args"
      by blast
    from confirmAndStart_Spawned [OF this]
    show "\<exists>t. pickTarget a = Some (JStr t) \<and> take 2 (drop 1 args) = [''--path'', t] \<and>
           toLowerCase e (trim e (pathNormalize e (typeConfirmation a))) =
             toLowerCase e (trim e (pathNormalize e t))"
      by auto
  qed
  have d: "startWipeSequence_v1 e b = Spawned exe args \<longrightarrow>
      take 2 (drop 1 args) = [''--path'', pathResolve e (pickTarget_v1 b)] \<and>
      toLowerCase e (dropBackslash (pathNormalize e (typeConfirmation_v1 b))) =
        toLowerCase e (dropBackslash (pathNormalize e (pathResolve e (pickTarget_v1 b))))"
  proof
    assume sp: "startWipeSequence_v1 e b = Spawned exe args"
    from startWipeSequence_v1_Spawned [OF sp]
    show "take 2 (drop 1 args) = [''--path'', pathResolve e (pickTarget_v1 b)] \<and>
      toLowerCase e (dropBackslash (pathNormalize e (typeConfirmation_v1 b))) =
        toLowerCase e (dropBackslash (pathNormalize e (pathResolve e (pickTarget_v1 b))))"
      by simp
  qed
  from a d startWipeSequence_mismatch [of a t e] confirmAndStart_mismatch [of e c t m f p]
    startWipeSequence_v1_mismatch [of e b]
  show ?thesis by blast
qed

theorem spawn_only_on_matching_confirmation_witness:
  "(\<exists>t. pickTarget exampleAnswers = Some (JStr t) \<and>
        toLowerCase exampleEnv (trim exampleEnv (pathNormalize exampleEnv (typeConfirmation exampleAnswers))) =
          toLowerCase exampleEnv (trim exampleEnv (pathNormalize exampleEnv t))) \<and>
   startWipeSequence exampleEnv (exampleAnswers\<lparr>typeConfirmation := ''/dev/sdb''\<rparr>) \<in>
     {MainMenu ConfirmationMismatch, MainMenu OperatorCancelled, MainMenu NoDrivesFound, NoAnswer} \<and>
   startWipeSequence_v1 examplePlatform_v1 (exampleAnswers_v1\<lparr>typeConfirmation_v1 := ''/media''\<rparr>) \<in>
     {MainMenu ConfirmationMismatch, MainMenu OperatorCancelled, MainMenu NoDrivesFound, NoAnswer} \<and>
   confirmAndStart exampleEnv (Some (JStr ''/dev/sdb1'')) ''secure'' ''ext4'' [] ''/dev/sdb'' =
     MainMenu ConfirmationMismatch \<and>
   toLowerCase examplePlatform_v1 (dropBackslash (pathNormalize examplePlatform_v1 (typeConfirmation_v1 exampleAnswers_v1))) =
     toLowerCase examplePlatform_v1 (dropBackslash (pathNormalize examplePlatform_v1
        (pathResolve examplePlatform_v1 (pickTarget_v1 exampleAnswers_v1))))"
proof -
  have h2: "toLowerCase exampleEnv (trim exampleEnv (pathNormalize exampleEnv ''/dev/sdb'')) \<noteq>
            toLowerCase exampleEnv (trim exampleEnv (pathNormalize exampleEnv ''/dev/sdb1''))"
    by code_simp
  note d = spawn_only_on_matching_confirmation [where e = exampleEnv and c = "''/dev/sdb''" and
      t = "''/dev/sdb1''" and m = "''secure''" and f = "''ext4''" and p = "[]",
      THEN conjunct2, THEN conjunct2, THEN conjunct1, THEN mp, OF h2]
  note f = spawn_only_on_matching_confirmation [where e = examplePlatform_v1 and
      b = exampleAnswers_v1, THEN conjunct2, THEN conjunct2, THEN conjunct2, THEN conjunct1,
      THEN mp, OF example_spawn_v1, THEN conjunct2]
  have h: "pickTarget (exampleAnswers\<lparr>typeConfirmation := ''/dev/sdb''\<rparr>) = Some (JStr ''/dev/sdb1'') \<and>
           toLowerCase exampleEnv (trim exampleEnv (pathNormalize exampleEnv
              (typeConfirmation (exampleAnswers\<lparr>typeConfirmation := ''/dev/sdb''\<rparr>)))) \<noteq>
           toLowerCase exampleEnv (trim exampleEnv (pathNormalize exampleEnv ''/dev/sdb1''))"
    by code_simp
  have h1: "toLowerCase examplePlatform_v1 (dropBackslash (pathNormalize examplePlatform_v1
               (typeConfirmation_v1 (exampleAnswers_v1\<lparr>typeConfirmation_v1 := ''/media''\<rparr>)))) \<noteq>
            toLowerCase examplePlatform_v1 (dropBackslash (pathNormalize examplePlatform_v1
               (pathResolve examplePlatform_v1
                  (pickTarget_v1 (exampleAnswers_v1\<lparr>typeConfirmation_v1 := ''/media''\<rparr>)))))"
    by code_simp
  note a = spawn_only_on_matching_confirmation [where e = exampleEnv and a = exampleAnswers,
      THEN conjunct1, THEN mp, OF example_spawn]
  note b = spawn_only_on_matching_confirmation [where e = exampleEnv and
      a = "exampleAnswers\<lparr>typeConfirmation := ''/dev/sdb''\<rparr>" and t = "''/dev/sdb1''",
      THEN conjunct2, THEN conjunct1, THEN mp, OF h]
  note c = spawn_only_on_matching_confirmation [where e = examplePlatform_v1 and
      b = "exampleAnswers_v1\<lparr>typeConfirmation_v1 := ''/media''\<rparr>",
      THEN conjunct2, THEN conjunct2, THEN conjunct2, THEN conjunct2, THEN mp, OF h1]
  from a have "\<exists>t. pickTarget exampleAnswers = Some (JStr t) \<and>
        toLowerCase exampleEnv (trim exampleEnv (pathNormalize exampleEnv (typeConfirmation exampleAnswers))) =
          toLowerCase exampleEnv (trim exampleEnv (pathNormalize exampleEnv t))"
    by blast
  with b c d f show ?thesis by (intro conjI) assumption+
qed

subsection \<open>Root\<close>

lemma getDrives_getuid: "getDrives (e\<lparr>getuid := g\<rparr>) = getDrives e"
proof -
  have "isDrivesLine (e\<lparr>getuid := g\<rparr>) = isDrivesLine e"
    by (rule ext) (simp add: isDrivesLine_def)
  moreover have "driveChoice (e\<lparr>getuid := g\<rparr>) = driveChoice e"
    by (rule ext) (simp add: driveChoice_def cong: sum.case_cong)
  ultimately have "primary (e\<lparr>getuid := g\<rparr>) = primary e"
    by (intro ext)
      (simp add: primary_def
        cong: exec_result.case_cong option.case_cong sum.case_cong json.case_cong)
  moreover have "cmd (e\<lparr>getuid := g\<rparr>) = cmd e"
    by (simp add: cmd_def pythonExecutable_def)
  moreover have "fallbackCmd (e\<lparr>getuid := g\<rparr>) = fallbackCmd e"
    by (simp add: fallbackCmd_def)
  moreover have "fallbackDrives (e\<lparr>getuid := g\<rparr>) = fallbackDrives e"
  proof -
    have s: "sizeOf (e\<lparr>getuid := g\<rparr>) = sizeOf e"
      by (intro ext) (simp add: sizeOf_def split: option.splits)
    have "wmicDrive (e\<lparr>getuid := g\<rparr>) = wmicDrive e"
      by (rule ext) (simp add: wmicDrive_def s cong: if_cong)
    moreover have "lsblkDrive (e\<lparr>getuid := g\<rparr>) = lsblkDrive e"
      by (rule ext) (simp add: lsblkDrive_def s cong: if_cong)
    ultimately show ?thesis
      by (intro ext) (simp add: fallbackDrives_def cong: if_cong)
  qed
  moreover have "exec (e\<lparr>getuid := g\<rparr>) = exec e"
    by simp
  ultimately show ?thesis
    by (simp only: getDrives_def)
qed

lemma confirmAndStart_getuid:
  "confirmAndStart e tp m f p c \<noteq> MainMenu RootRequired \<Longrightarrow>
   \<forall>x y. confirmAndStart e tp m f p c \<noteq> Spawned x y \<Longrightarrow>
   confirmAndStart (e\<lparr>getuid := g\<rparr>) tp m f p c = confirmAndStart e tp m f p c"
  by (auto simp: confirmAndStart_def startWipeProcess_def Let_def
      split: option.splits json.splits if_splits)

lemma startWipeSequence_getuid:
  assumes "\<forall>x y. startWipeSequence e a \<noteq> Spawned x y"
    and "startWipeSequence e a \<noteq> MainMenu RootRequired"
  shows "startWipeSequence (e\<lparr>getuid := g\<rparr>) a = startWipeSequence e a"
  using assms confirmAndStart_getuid [of e _ _ _ _ _ g]
  by (auto simp: startWipeSequence_def getDrives_getuid fsChoices_def
      split: sum.splits option.splits if_splits)

lemma confirmAndStart_no_getuid:
  "confirmAndStart (e\<lparr>getuid := None\<rparr>) tp m f p c =
   confirmAndStart (e\<lparr>getuid := Some 0\<rparr>) tp m f p c"
  by (simp add: confirmAndStart_def startWipeProcess_def pythonExecutable_def
      split: option.splits json.splits)

lemma startWipeSequence_no_getuid:
  "startWipeSequence (e\<lparr>getuid := None\<rparr>) a = startWipeSequence (e\<lparr>getuid := Some 0\<rparr>) a"
  by (simp add: startWipeSequence_def getDrives_getuid fsChoices_def confirmAndStart_no_getuid
      split: option.splits sum.splits)

text \<open>
  Claim C10, amended. In \<^verbatim>\<open>index.js\<close>, off Windows, a process for which
  \<^verbatim>\<open>process.getuid\<close> is a function starts the engine only when its uid is 0: answers that
  would start the engine as root end, for any other uid, at the main menu with the notice
  that root is required. Where \<^verbatim>\<open>process.getuid\<close> is not a function the test is skipped
  and the run goes as it does for root. Listing the drives does not look at the uid, and
  every run that neither starts the engine nor stops at that notice (the menus, a cancelled
  prompt, a confirmation that does not match) goes the same way under any uid.
\<close>

theorem root_required:
  "(startWipeSequence e a = Spawned exe args \<and> \<not> isWindows e \<longrightarrow>
      getuid e = Some 0 \<or> getuid e = None) \<and>
   (startWipeSequence (e\<lparr>getuid := Some 0\<rparr>) a = Spawned exe args \<and> \<not> isWindows e \<and> u \<noteq> 0 \<longrightarrow>
      startWipeSequence (e\<lparr>getuid := Some u\<rparr>) a = MainMenu RootRequired) \<and>
   startWipeSequence (e\<lparr>getuid := None\<rparr>) a = startWipeSequence (e\<lparr>getuid := Some 0\<rparr>) a \<and>
   getDrives (e\<lparr>getuid := g\<rparr>) = getDrives e \<and>
   ((\<forall>x y. startWipeSequence e a \<noteq> Spawned x y) \<and>
    startWipeSequence e a \<noteq> MainMenu RootRequired \<longrightarrow>
      startWipeSequence (e\<lparr>getuid := g\<rparr>) a = startWipeSequence e a)"
proof -
  have a: "startWipeSequence e a = Spawned exe args \<and> \<not> isWindows e \<longrightarrow>
             getuid e = Some 0 \<or> getuid e = None"
  proof
    assume h: "startWipeSequence e a = Spawned exe args \<and> \<not> isWindows e"
    then obtain p where
      "confirmAndStart e (pickTarget a) (pickMode a) (pickFs a) p (typeConfirmation a) =
         Spawned exe args"
      using startWipeSequence_Spawned by blast
    from confirmAndStart_Spawned [OF this] h show "getuid e = Some 0 \<or> getuid e = None"
      by auto
  qed
  have b: "startWipeSequence (e\<lparr>getuid := Some 0\<rparr>) a = Spawned exe args \<and> \<not> isWindows e \<and>
           u \<noteq> 0 \<longrightarrow>
      startWipeSequence (e\<lparr>getuid := Some u\<rparr>) a = MainMenu RootRequired"
  proof
    assume h: "startWipeSequence (e\<lparr>getuid := Some 0\<rparr>) a = Spawned exe args \<and> \<not> isWindows e \<and>
               u \<noteq> 0"
    let ?r = "e\<lparr>getuid := Some 0\<rparr>" and ?n = "e\<lparr>getuid := Some u\<rparr>"
    from h startWipeSequence_Spawned [of ?r a exe args] obtain drives p where
      f: "snd (getDrives ?r) = Inr drives" "drives \<noteq> []"
        "pickTarget a \<in> set (selectable (map Choice drives @
                                 [Separator, plain ''Cancel'' (Some (JStr ''cancel''))]))"
        "pickTarget a \<noteq> Some (JStr ''cancel'')"
        "pickMode a \<in> set (selectable wipeModeChoices)" "pickMode a \<noteq> ''cancel''"
        "pickFs a \<in> set (selectable (fsChoices ?r @ [Separator, plain ''Cancel'' ''cancel'']))"
        "pickFs a \<noteq> ''cancel''"
        "askPasses (pickMode a) (typePasses a) = Some p"
      and c: "confirmAndStart ?r (pickTarget a) (pickMode a) (pickFs a) p (typeConfirmation a) =
                Spawned exe args"
      by blast
    from f(1) have g1: "snd (getDrives ?n) = Inr drives"
      by (simp add: getDrives_getuid)
    from f(7) have g7:
      "pickFs a \<in> set (selectable (fsChoices ?n @ [Separator, plain ''Cancel'' ''cancel'']))"
      by (simp add: fsChoices_def)
    from startWipeSequence_reaches_confirmation [OF g1 f(2) f(3) f(4) f(5) f(6) g7 f(8) f(9)]
    have "startWipeSequence ?n a =
            confirmAndStart ?n (pickTarget a) (pickMode a) (pickFs a) p (typeConfirmation a)" .
    moreover from confirmAndStart_Spawned [OF c] h
    have "confirmAndStart ?n (pickTarget a) (pickMode a) (pickFs a) p (typeConfirmation a) =
            MainMenu RootRequired"
      by (auto simp: confirmAndStart_def Let_def)
    ultimately show "startWipeSequence ?n a = MainMenu RootRequired" by simp
  qed
  from a b startWipeSequence_no_getuid [of e a] getDrives_getuid [where e = e and g = g]
    startWipeSequence_getuid [of e a g]
  show ?thesis by blast
qed

theorem root_required_witness:
  "(getuid exampleEnv = Some 0 \<or> getuid exampleEnv = None) \<and>
   startWipeSequence (exampleEnv\<lparr>getuid := Some 1000\<rparr>) exampleAnswers = MainMenu RootRequired \<and>
   startWipeSequence (exampleEnv\<lparr>getuid := Some 1000\<rparr>)
       (exampleAnswers\<lparr>pickMode := ''cancel''\<rparr>) =
     startWipeSequence exampleEnv (exampleAnswers\<lparr>pickMode := ''cancel''\<rparr>)"
proof -
  have r: "startWipeSequence (exampleEnv\<lparr>getuid := Some 0\<rparr>) exampleAnswers =
             Spawned ''python3''
               [''/opt/scrubber/main.py'', ''--path'', ''/dev/sdb1'', ''--mode'', ''paranoid'',
                ''--filesystem'', ''ext4'', ''--passes'', ''3''] \<and>
           \<not> isWindows exampleEnv \<and> (1000::nat) \<noteq> 0"
    by code_simp
  have c: "(\<forall>x y. startWipeSequence exampleEnv (exampleAnswers\<lparr>pickMode := ''cancel''\<rparr>) \<noteq>
                   Spawned x y) \<and>
           startWipeSequence exampleEnv (exampleAnswers\<lparr>pickMode := ''cancel''\<rparr>) \<noteq>
             MainMenu RootRequired"
  proof -
    have "startWipeSequence exampleEnv (exampleAnswers\<lparr>pickMode := ''cancel''\<rparr>) =
            MainMenu OperatorCancelled"
      by code_simp
    then show ?thesis by simp
  qed
  have s: "startWipeSequence exampleEnv exampleAnswers =
             Spawned ''python3''
               [''/opt/scrubber/main.py'', ''--path'', ''/dev/sdb1'', ''--mode'', ''paranoid'',
                ''--filesystem'', ''ext4'', ''--passes'', ''3''] \<and>
           \<not> isWindows exampleEnv"
    by code_simp
  note a = root_required [where e = exampleEnv and a = exampleAnswers and u = 1000,
      THEN conjunct2, THEN conjunct1, THEN mp, OF r]
  note b = root_required [where e = exampleEnv and a = exampleAnswers,
      THEN conjunct1, THEN mp, OF s]
  note d = root_required [where e = exampleEnv and
      a = "exampleAnswers\<lparr>pickMode := ''cancel''\<rparr>" and g = "Some 1000",
      THEN conjunct2, THEN conjunct2, THEN conjunct2, THEN conjunct2, THEN mp, OF c]
  from b a d show ?thesis by (intro conjI) assumption+
qed

text \<open>
  Claim C10 as it was stated, for every platform but Windows, fails where Node.js provides
  no \<^verbatim>\<open>process.getuid\<close>: there the engine is started although no uid 0 was seen.
\<close>

theorem no_getuid_no_root_check:
  "\<not> isWindows (exampleEnv\<lparr>getuid := None\<rparr>) \<and>
   getuid (exampleEnv\<lparr>getuid := None\<rparr>) \<noteq> Some 0 \<and>
   startWipeSequence (exampleEnv\<lparr>getuid := None\<rparr>) exampleAnswers =
     Spawned ''python3''
       [''/opt/scrubber/main.py'', ''--path'', ''/dev/sdb1'', ''--mode'', ''paranoid'',
        ''--filesystem'', ''ext4'', ''--passes'', ''3'']"
  by code_simp

end
